theory Spec2Isabelle
  imports Main
begin

section \<open>Snap2Style backend: the credit and quota ledger of main.py\<close>

text \<open>
  The theory embeds the parts of \<^verbatim>\<open>snap2style-backend/main.py\<close> that read or write the
  relational tables \<^verbatim>\<open>users\<close>, \<^verbatim>\<open>email_tokens\<close>, \<^verbatim>\<open>guests\<close> and
  \<^verbatim>\<open>generation_logs\<close> and the upload directory.

  Conventions of the model.
  \<^item> A table is the list of its rows in insertion order. \<^verbatim>\<open>db.get(T, key)\<close> is the first
    row with that primary key, \<^verbatim>\<open>db.scalar(select ...)\<close> the first row that matches,
    \<^verbatim>\<open>db.add\<close> appends, and a \<^verbatim>\<open>db.commit()\<close> after a row was mutated replaces the
    row of that key.
  \<^item> A \<^verbatim>\<open>datetime\<close> is naive, as everywhere in the source: the count of microseconds
    from 1970-01-01 00:00 to the wall-clock reading it holds, an \<open>int\<close>;
    \<^verbatim>\<open>timedelta(hours=24)\<close> is \<open>86400000000\<close>.
  \<^item> \<^verbatim>\<open>.timestamp()\<close> of a naive datetime is Python's conversion of that reading as
    local time of the process. The zone is not part of the repository, so the conversion
    is an input, the function \<open>py_timestamp\<close> of the record \<open>env\<close>, from a datetime to
    the POSIX time it denotes, counted in microseconds; only the float rounding of the
    seconds value is outside the model.
  \<^item> What a handler reads from outside (the clock, \<^verbatim>\<open>time.time()\<close>, \<^verbatim>\<open>uuid4()\<close>,
    \<^verbatim>\<open>secrets\<close>, bcrypt, the image provider) is an input, a field of the record \<open>env\<close>.
    Each helper function reads the clock once; a column default filled at an insert
    takes the value of that read.
  \<^item> Requests run one after the other; sending mail, cookies and the CSV analytics files
    are not modelled, and the persistence layer does not fail. The surrogate key of
    \<^verbatim>\<open>generation_logs\<close> is never read and is left out; the unique constraints on
    \<^verbatim>\<open>users.email\<close> and \<^verbatim>\<open>email_tokens.token\<close> are not enforced by the model.
\<close>

subsection \<open>Constants\<close>

type_synonym datetime = int

definition hours24 :: int where
  "hours24 = 24 * 3600 * 1000000"

definition minutes :: "int \<Rightarrow> int" where
  "minutes m = m * 60 * 1000000"

definition DAILY_FREE_LIMIT :: nat where
  "DAILY_FREE_LIMIT = 2"

subsection \<open>Tables\<close>

record user =
  uid :: int
  email :: string
  password_hash :: string
  is_verified :: bool
  free_credits :: int
  verify_bonus_claimed :: bool
  user_created_at :: datetime
  last_login_at :: "datetime option"

record email_token =
  tok_id :: int
  tok_user_id :: int
  token :: string
  purpose :: string
  expires_at :: datetime
  tok_created_at :: datetime

record guest =
  gid :: string
  credits :: int
  guest_created_at :: datetime
  last_seen :: datetime

record generation_log =
  user_id :: "int option"
  guest_id :: "string option"
  created_at :: datetime

record state =
  users :: "user list"
  email_tokens :: "email_token list"
  guests :: "guest list"
  generation_logs :: "generation_log list"
  upload_dir :: "string \<rightharpoonup> string"

definition get_user :: "state \<Rightarrow> int \<Rightarrow> user option" where
  "get_user st i = find (\<lambda>u. uid u = i) (users st)"

definition user_by_email :: "state \<Rightarrow> string \<Rightarrow> user option" where
  "user_by_email st e = find (\<lambda>u. email u = e) (users st)"

definition commit_user :: "user \<Rightarrow> state \<Rightarrow> state" where
  "commit_user u st = st\<lparr>users := map (\<lambda>x. if uid x = uid u then u else x) (users st)\<rparr>"

definition get_guest :: "state \<Rightarrow> string \<Rightarrow> guest option" where
  "get_guest st g = find (\<lambda>x. gid x = g) (guests st)"

definition commit_guest :: "guest \<Rightarrow> state \<Rightarrow> state" where
  "commit_guest g st = st\<lparr>guests := map (\<lambda>x. if gid x = gid g then g else x) (guests st)\<rparr>"

subsection \<open>Decimal text of an integer: \<^verbatim>\<open>str(n)\<close> and \<^verbatim>\<open>int(s)\<close>\<close>

definition digit_char :: "nat \<Rightarrow> char" where
  "digit_char d = ''0123456789'' ! d"

definition digit_val :: "char \<Rightarrow> nat" where
  "digit_val c = of_char c - 48"

definition is_digit :: "char \<Rightarrow> bool" where
  "is_digit c = (48 \<le> (of_char c :: nat) \<and> (of_char c :: nat) \<le> 57)"

fun str_nat :: "nat \<Rightarrow> string" where
  "str_nat n = (if n < 10 then [digit_char n] else str_nat (n div 10) @ [digit_char (n mod 10)])"

definition str_int :: "int \<Rightarrow> string" where
  "str_int i = (if i < 0 then CHR ''-'' # str_nat (nat (- i)) else str_nat (nat i))"

definition parse_nat :: "string \<Rightarrow> nat" where
  "parse_nat s = foldl (\<lambda>a c. 10 * a + digit_val c) 0 s"

text \<open>
  \<^verbatim>\<open>int(s)\<close> on an optional minus sign followed by decimal digits, the only texts the
  handlers pass to it (\<^verbatim>\<open>who_id\<close> is \<^verbatim>\<open>str(u.id)\<close>); \<open>None\<close> stands for
  \<^verbatim>\<open>ValueError\<close>.
\<close>

definition int_of_str :: "string \<Rightarrow> int option" where
  "int_of_str s =
     (case s of
        [] \<Rightarrow> None
      | c # ds \<Rightarrow>
          if c = CHR ''-'' then
            (if ds \<noteq> [] \<and> list_all is_digit ds then Some (- int (parse_nat ds)) else None)
          else if list_all is_digit s then Some (int (parse_nat s)) else None)"

subsection \<open>Guest and limit helpers\<close>

text \<open>
  \<^verbatim>\<open>get_or_create_guest\<close>: \<open>cookie\<close> is \<^verbatim>\<open>request.cookies.get(GUEST_COOKIE)\<close>,
  \<open>new_uuid\<close> the value of \<^verbatim>\<open>uuid4().hex\<close> and \<open>now\<close> the clock read for the row.
  \<open>guest_cookie_id\<close> is the \<^verbatim>\<open>gid\<close> of its first three lines: the cookie, or the new
  identifier when the cookie is missing or empty.
\<close>

definition guest_cookie_id :: "string \<Rightarrow> string option \<Rightarrow> string" where
  "guest_cookie_id new_uuid cookie =
     (case cookie of None \<Rightarrow> new_uuid | Some c \<Rightarrow> if c = [] then new_uuid else c)"

definition get_or_create_guest :: "datetime \<Rightarrow> string \<Rightarrow> string option \<Rightarrow> state \<Rightarrow> guest \<times> state" where
  "get_or_create_guest now new_uuid cookie st =
     (let g_id = guest_cookie_id new_uuid cookie
      in case get_guest st g_id of
           None \<Rightarrow>
             (let g = \<lparr>gid = g_id, credits = 2, guest_created_at = now, last_seen = now\<rparr>
              in (g, st\<lparr>guests := guests st @ [g]\<rparr>))
         | Some g0 \<Rightarrow>
             (let g = g0\<lparr>last_seen := now\<rparr> in (g, commit_guest g st)))"

definition log_generation_db :: "datetime \<Rightarrow> int option \<Rightarrow> string option \<Rightarrow> state \<Rightarrow> state" where
  "log_generation_db now u g st =
     st\<lparr>generation_logs := generation_logs st @ [\<lparr>user_id = u, guest_id = g, created_at = now\<rparr>]\<rparr>"

text \<open>Python truthiness of the two optional arguments of \<^verbatim>\<open>count_last_24h\<close>.\<close>

definition truthy_int :: "int option \<Rightarrow> bool" where
  "truthy_int x = (case x of None \<Rightarrow> False | Some i \<Rightarrow> i \<noteq> 0)"

definition truthy_str :: "string option \<Rightarrow> bool" where
  "truthy_str x = (case x of None \<Rightarrow> False | Some s \<Rightarrow> s \<noteq> [])"

definition count_last_24h :: "datetime \<Rightarrow> state \<Rightarrow> int option \<Rightarrow> string option \<Rightarrow> nat" where
  "count_last_24h now st u g =
     (let since = now - hours24;
          r0 = filter (\<lambda>l. since \<le> created_at l) (generation_logs st);
          r1 = (if truthy_int u then filter (\<lambda>l. user_id l = u) r0 else r0);
          r2 = (if truthy_str g then filter (\<lambda>l. guest_id l = g) r1 else r1)
      in length r2)"

text \<open>
  \<^verbatim>\<open>next_available_ts\<close>: the rows of the user in the window, most recent first. Rows with
  equal \<^verbatim>\<open>created_at\<close> may come in any order; only the \<^verbatim>\<open>created_at\<close> of the row at
  index \<open>DAILY_FREE_LIMIT - 1\<close> is read, which no such order changes.
\<close>

definition user_window_logs :: "datetime \<Rightarrow> state \<Rightarrow> int \<Rightarrow> generation_log list" where
  "user_window_logs now st i =
     filter (\<lambda>l. user_id l = Some i \<and> now - hours24 \<le> created_at l) (generation_logs st)"

definition window_logs_desc :: "datetime \<Rightarrow> state \<Rightarrow> int \<Rightarrow> generation_log list" where
  "window_logs_desc now st i = rev (sort_key created_at (user_window_logs now st i))"

text \<open>
  \<open>timestamp\<close> is \<^verbatim>\<open>.timestamp()\<close>, applied to the naive datetime
  \<^verbatim>\<open>kth.created_at + timedelta(hours=24)\<close>.
\<close>

definition next_available_ts ::
  "(datetime \<Rightarrow> int) \<Rightarrow> datetime \<Rightarrow> state \<Rightarrow> int \<Rightarrow> int option" where
  "next_available_ts timestamp now st i =
     (let logs = window_logs_desc now st i
      in if length logs < DAILY_FREE_LIMIT then None
         else Some (timestamp (created_at (logs ! (DAILY_FREE_LIMIT - 1)) + hours24)))"

subsection \<open>Text helpers\<close>

definition py_lower :: "string \<Rightarrow> string" where
  "py_lower s = map (\<lambda>c. if 65 \<le> (of_char c :: nat) \<and> (of_char c :: nat) \<le> 90
                            then char_of ((of_char c :: nat) + 32) else c) s"

definition startswith :: "string \<Rightarrow> string \<Rightarrow> bool" where
  "startswith s p = (take (length p) s = p)"

definition replace_space :: "string \<Rightarrow> string" where
  "replace_space s = map (\<lambda>c. if c = CHR '' '' then CHR ''_'' else c) s"

definition rstrip_slash :: "string \<Rightarrow> string" where
  "rstrip_slash s = rev (dropWhile (\<lambda>c. c = CHR ''/'') (rev s))"

definition abs_url :: "string \<Rightarrow> string \<Rightarrow> string" where
  "abs_url base path = rstrip_slash base @ path"

subsection \<open>Requests, responses and the inputs of one run of \<^verbatim>\<open>style_image\<close>\<close>

record payload =
  styledUrls :: "string list"
  filename :: string
  predictionId :: string
  style :: string
  note_text :: "string option"

text \<open>
  The bodies the handlers answer with. \<open>Error429\<close> carries \<^verbatim>\<open>error\<close>,
  \<^verbatim>\<open>used_last_24h\<close>, \<^verbatim>\<open>daily_limit\<close>, \<^verbatim>\<open>retry_after_seconds\<close> and \<^verbatim>\<open>message\<close>;
  \<open>Error402\<close> carries \<^verbatim>\<open>error\<close> and \<^verbatim>\<open>cta\<close>; \<open>Error500\<close> is an uncaught Python
  exception. \<open>UserSummary\<close> carries \<^verbatim>\<open>email\<close>, \<^verbatim>\<open>verified\<close>, \<^verbatim>\<open>free_credits\<close>,
  \<^verbatim>\<open>daily_limit\<close>, \<^verbatim>\<open>used_last_24h\<close> and \<^verbatim>\<open>next_available_ts\<close>; \<open>GuestSummary\<close>
  carries \<^verbatim>\<open>verified\<close>, \<^verbatim>\<open>guest_credits\<close>, \<^verbatim>\<open>daily_limit\<close>, \<^verbatim>\<open>used_last_24h\<close> and
  \<^verbatim>\<open>next_available_ts\<close>.
\<close>

datatype response =
    Error400 string
  | Error401 string
  | Error402 string string
  | Error404 string
  | Error409 string
  | Error429 string nat nat int string
  | Error500
  | Ok
  | OkMessage string
  | Redirect string
  | Payload payload
  | UserSummary string bool int nat nat "int option"
  | GuestSummary bool int nat nat "int option"

text \<open>
  \<open>req_auth\<close> is what \<^verbatim>\<open>parse_jwt\<close> returns for the auth cookie (\<open>None\<close> without a
  cookie or with a token that does not verify); the signature check itself is the JWT
  library's.
\<close>

record style_request =
  req_auth :: "int option"
  req_guest_cookie :: "string option"
  file_content_type :: "string option"
  file_contents :: string
  file_filename :: string
  form_style :: string
  form_instructions :: string
  base_url :: string

text \<open>
  What one run of a handler reads from outside: the configured provider, the two
  \<^verbatim>\<open>int(time.time())\<close> values used in file names, the \<^verbatim>\<open>uuid4().hex\<close> of a new guest,
  the clock as read by \<^verbatim>\<open>count_last_24h\<close> (\<open>t_count\<close>), by \<^verbatim>\<open>next_available_ts\<close>
  (\<open>t_next\<close>), by the computation of the wait (\<open>t_wait\<close>), by \<^verbatim>\<open>get_or_create_guest\<close>
  (\<open>t_seen\<close>), by the insertion of the log row (\<open>t_log\<close>), by an auth handler itself
  (\<open>t_now\<close>), by \<^verbatim>\<open>new_email_token\<close> (\<open>t_tok\<close>) and by \<^verbatim>\<open>generate_otp_for_user\<close>
  (\<open>t_otp\<close>); what \<^verbatim>\<open>stability_img2img\<close> did (\<open>Inr\<close> the image bytes, \<open>Inl\<close> the text
  of the exception); the \<^verbatim>\<open>secrets.token_urlsafe(32)\<close> of a verify link, the six digits
  of an OTP, the bcrypt hash of a new password, bcrypt's verdict \<open>verify_pw\<close> on a
  password and a stored hash, and \<open>py_timestamp\<close>, what \<^verbatim>\<open>.timestamp()\<close> returns for a
  naive datetime in this process.
\<close>

record env =
  AI_PROVIDER :: string
  upload_time :: int
  styled_time :: int
  new_uuid :: string
  t_count :: datetime
  t_next :: datetime
  t_wait :: datetime
  t_seen :: datetime
  t_log :: datetime
  stability_outcome :: "string + string"
  t_now :: datetime
  t_tok :: datetime
  t_otp :: datetime
  new_token :: string
  new_otp :: string
  new_hash :: string
  verify_pw :: "string \<Rightarrow> string \<Rightarrow> bool"
  py_timestamp :: "datetime \<Rightarrow> int"

definition get_current_user :: "state \<Rightarrow> int option \<Rightarrow> user option" where
  "get_current_user st sub =
     (case sub of None \<Rightarrow> None | Some i \<Rightarrow> if i = 0 then None else get_user st i)"

subsection \<open>\<^verbatim>\<open>style_image\<close>: the block between ENFORCE CREDITS and END ENFORCEMENT\<close>

text \<open>
  The block either leaves \<^verbatim>\<open>who_kind, who_id\<close> set and falls through (\<open>Proceed\<close>), or
  returns a response (\<open>Reply\<close>). \<open>Crash\<close> is the \<^verbatim>\<open>AttributeError\<close> of reading a field
  of a row that \<^verbatim>\<open>db.get\<close> did not find.
\<close>

datatype enforcement = Proceed string string | Reply response | Crash

definition daily_limit_reply :: "nat \<Rightarrow> int \<Rightarrow> response" where
  "daily_limit_reply used24 wait =
     Error429 ''Daily free limit reached.'' used24 DAILY_FREE_LIMIT wait
       ''Please wait or purchase a plan to continue.''"

definition guest_exhausted_reply :: response where
  "guest_exhausted_reply =
     Error402 ''Free tries used. Register & verify to get +2, then 2/day.'' ''register''"

text \<open>
  \<^verbatim>\<open>int(max(0, (ts - datetime.utcnow().timestamp()))) if ts else 3600\<close>: \<open>ts\<close> is what
  \<^verbatim>\<open>next_available_ts\<close> returned and \<open>now_ts\<close> the \<^verbatim>\<open>.timestamp()\<close> of the clock
  read, both in microseconds; \<^verbatim>\<open>None\<close> and \<^verbatim>\<open>0.0\<close> are the falsy values of \<open>ts\<close>.
\<close>

definition retry_after_seconds :: "int option \<Rightarrow> int \<Rightarrow> int" where
  "retry_after_seconds ts now_ts =
     (case ts of
        None \<Rightarrow> 3600
      | Some t \<Rightarrow> if t = 0 then 3600 else max 0 (t - now_ts) div 1000000)"

definition enforce_credits ::
  "env \<Rightarrow> user option \<Rightarrow> string option \<Rightarrow> state \<Rightarrow> enforcement \<times> state" where
  "enforce_credits env usr cookie st =
     (case usr of
        Some usr0 \<Rightarrow>
          (case get_user st (uid usr0) of
             None \<Rightarrow> (Crash, st)
           | Some u \<Rightarrow>
               if is_verified u \<and> 0 < free_credits u then
                 (Proceed ''user'' (str_int (uid u)),
                  commit_user (u\<lparr>free_credits := free_credits u - 1\<rparr>) st)
               else
                 (let used24 = count_last_24h (t_count env) st (Some (uid u)) None
                  in if DAILY_FREE_LIMIT \<le> used24 then
                       (let ts = next_available_ts (py_timestamp env) (t_next env) st (uid u);
                            wait = retry_after_seconds ts (py_timestamp env (t_wait env))
                        in (Reply (daily_limit_reply used24 wait), st))
                     else (Proceed ''user'' (str_int (uid u)), st)))
      | None \<Rightarrow>
          (case get_or_create_guest (t_seen env) (new_uuid env) cookie st of
             (g, st1) \<Rightarrow>
               (case get_guest st1 (gid g) of
                  None \<Rightarrow> (Crash, st1)
                | Some gg \<Rightarrow>
                    if credits gg \<le> 0 then (Reply guest_exhausted_reply, st1)
                    else (Proceed ''guest'' (gid g),
                          commit_guest (gg\<lparr>credits := credits gg - 1\<rparr>) st1))))"

subsection \<open>\<^verbatim>\<open>style_image\<close>: generation and logging\<close>

text \<open>
  The prompt texts that \<^verbatim>\<open>plan_from_instructions\<close> and \<^verbatim>\<open>build_prompt_from_style\<close>
  build go to the provider only; the provider's answer is the input \<open>stability_outcome\<close>.
  \<open>None\<close> is the branch that answers 400 for a provider that is neither
  \<^verbatim>\<open>mock\<close> nor \<^verbatim>\<open>stability\<close>.
\<close>

definition style_or_custom :: "string \<Rightarrow> string" where
  "style_or_custom s = (if s = [] then ''custom'' else s)"

definition generation ::
  "env \<Rightarrow> style_request \<Rightarrow> string \<Rightarrow> string \<Rightarrow> state \<Rightarrow> (payload \<times> state) option" where
  "generation env rq safe_name base st =
     (if AI_PROVIDER env = ''mock'' then
        Some (\<lparr>styledUrls = [abs_url base (''/uploads/'' @ safe_name)],
               filename = safe_name,
               predictionId = ''mock'',
               style = style_or_custom (form_style rq),
               note_text = Some ''Mock mode: set AI_PROVIDER=stability to enable real styling.''\<rparr>, st)
      else if AI_PROVIDER env = ''stability'' then
        (case stability_outcome env of
           Inr png \<Rightarrow>
             (let out_name = str_int (styled_time env) @ ''_styled.png''
              in Some (\<lparr>styledUrls = [abs_url base (''/uploads/'' @ out_name)],
                        filename = out_name,
                        predictionId = ''stability'',
                        style = style_or_custom (form_style rq),
                        note_text = None\<rparr>,
                       st\<lparr>upload_dir := (upload_dir st)(out_name \<mapsto> png)\<rparr>))
         | Inl e \<Rightarrow>
             Some (\<lparr>styledUrls = [abs_url base (''/uploads/'' @ safe_name)],
                    filename = safe_name,
                    predictionId = ''error_fallback'',
                    style = style_or_custom (form_style rq),
                    note_text = Some (''Generation error: '' @ e)\<rparr>, st))
      else None)"

text \<open>
  The \<^verbatim>\<open>try\<close> block after generation: an exception of \<^verbatim>\<open>int(who_id)\<close> is swallowed and
  nothing is logged.
\<close>

definition log_after_generation :: "datetime \<Rightarrow> string \<Rightarrow> string \<Rightarrow> state \<Rightarrow> state" where
  "log_after_generation now who_kind who_id st =
     (if who_kind = ''user'' then
        (case int_of_str who_id of
           None \<Rightarrow> st
         | Some i \<Rightarrow> log_generation_db now (Some i) None st)
      else log_generation_db now None (Some who_id) st)"

text \<open>
  \<^verbatim>\<open>safe_name\<close> and \<^verbatim>\<open>in_path.write_bytes(contents)\<close>, the two statements between the
  checks of the upload and the enforcement block. The write of the model always succeeds;
  in the source a file name holding a path separator makes \<^verbatim>\<open>write_bytes\<close> raise, and
  the request ends as a 500 before the enforcement block is reached.
\<close>

definition safe_name :: "env \<Rightarrow> style_request \<Rightarrow> string" where
  "safe_name env rq = str_int (upload_time env) @ ''_'' @ replace_space (file_filename rq)"

definition write_upload :: "env \<Rightarrow> style_request \<Rightarrow> state \<Rightarrow> state" where
  "write_upload env rq st =
     st\<lparr>upload_dir := (upload_dir st)(safe_name env rq \<mapsto> file_contents rq)\<rparr>"

text \<open>
  The handler. \<open>usr\<close> is the \<^verbatim>\<open>Depends(get_current_user)\<close> argument, resolved before the
  body runs.
\<close>

definition style_image :: "env \<Rightarrow> style_request \<Rightarrow> state \<Rightarrow> response \<times> state" where
  "style_image env rq st =
     (let usr = get_current_user st (req_auth rq);
          ctype = py_lower (case file_content_type rq of None \<Rightarrow> [] | Some c \<Rightarrow> c)
      in if \<not> startswith ctype ''image/'' then (Error400 ''Invalid file type'', st)
         else if 8 * 1024 * 1024 < length (file_contents rq) then (Error400 ''File too large'', st)
         else
           (let st1 = write_upload env rq st;
                base = rstrip_slash (base_url rq)
            in case enforce_credits env usr (req_guest_cookie rq) st1 of
                 (Reply r, st2) \<Rightarrow> (r, st2)
               | (Crash, st2) \<Rightarrow> (Error500, st2)
               | (Proceed who_kind who_id, st2) \<Rightarrow>
                   (case generation env rq (safe_name env rq) base st2 of
                      None \<Rightarrow> (Error400 ''Unknown AI provider'', st2)
                    | Some (p, st3) \<Rightarrow>
                        (Payload p, log_after_generation (t_log env) who_kind who_id st3))))"

subsection \<open>Auth helpers\<close>

definition is_space :: "char \<Rightarrow> bool" where
  "is_space c = (c \<in> set [CHR '' '', CHR 0x09, CHR 0x0A, CHR 0x0B, CHR 0x0C, CHR 0x0D])"

definition py_strip :: "string \<Rightarrow> string" where
  "py_strip s = rev (dropWhile is_space (rev (dropWhile is_space s)))"

text \<open>The key SQLite gives a new row: one more than the largest key in the table.\<close>

definition next_key :: "int list \<Rightarrow> int" where
  "next_key ks = (if ks = [] then 1 else Max (set ks) + 1)"

definition new_email_token :: "datetime \<Rightarrow> string \<Rightarrow> int \<Rightarrow> string \<Rightarrow> int \<Rightarrow> state \<Rightarrow> state" where
  "new_email_token now tok u p mins st =
     st\<lparr>email_tokens := email_tokens st @
        [\<lparr>tok_id = next_key (map tok_id (email_tokens st)), tok_user_id = u, token = tok,
          purpose = p, expires_at = now + minutes mins, tok_created_at = now\<rparr>]\<rparr>"

definition generate_otp_for_user :: "datetime \<Rightarrow> string \<Rightarrow> int \<Rightarrow> int \<Rightarrow> state \<Rightarrow> state" where
  "generate_otp_for_user now code u mins st =
     (let kept = filter (\<lambda>t. \<not> (tok_user_id t = u \<and> purpose t = ''otp'')) (email_tokens st)
      in st\<lparr>email_tokens := kept @
           [\<lparr>tok_id = next_key (map tok_id (email_tokens st)), tok_user_id = u, token = code,
             purpose = ''otp'', expires_at = now + minutes mins, tok_created_at = now\<rparr>]\<rparr>)"

definition delete_token :: "email_token \<Rightarrow> state \<Rightarrow> state" where
  "delete_token t st = st\<lparr>email_tokens := filter (\<lambda>x. tok_id x \<noteq> tok_id t) (email_tokens st)\<rparr>"

text \<open>
  The lines \<^verbatim>\<open>verify_email\<close> and \<^verbatim>\<open>verify_otp\<close> share:
  \<^verbatim>\<open>u.is_verified = True\<close>, then, unless \<^verbatim>\<open>u.verify_bonus_claimed\<close>,
  \<^verbatim>\<open>u.free_credits = (u.free_credits or 0) + 2; u.verify_bonus_claimed = True\<close>.
\<close>

definition mark_verified :: "user \<Rightarrow> user" where
  "mark_verified u =
     (let u1 = u\<lparr>is_verified := True\<rparr>
      in if \<not> verify_bonus_claimed u1
         then u1\<lparr>free_credits := free_credits u1 + 2, verify_bonus_claimed := True\<rparr>
         else u1)"

subsection \<open>Auth routes\<close>

text \<open>
  \<^verbatim>\<open>register\<close>: \<open>email_ok\<close> is the verdict of pydantic's \<^verbatim>\<open>EmailStr\<close> on the
  normalised address.
\<close>

definition register :: "env \<Rightarrow> string \<Rightarrow> string \<Rightarrow> bool \<Rightarrow> state \<Rightarrow> response \<times> state" where
  "register env raw_email password email_ok st =
     (let e = py_lower (py_strip raw_email)
      in if \<not> (email_ok \<and> 6 \<le> length password \<and> length password \<le> 128)
         then (Error400 ''Invalid request body'', st)
         else if user_by_email st e \<noteq> None then (Error409 ''Email already registered'', st)
         else
           (let u = \<lparr>uid = next_key (map uid (users st)), email = e,
                     password_hash = new_hash env, is_verified = False, free_credits = 0,
                     verify_bonus_claimed = False, user_created_at = t_now env,
                     last_login_at = None\<rparr>;
                st1 = st\<lparr>users := users st @ [u]\<rparr>;
                st2 = new_email_token (t_tok env) (new_token env) (uid u) ''verify'' (60 * 24 * 3) st1;
                st3 = generate_otp_for_user (t_otp env) (new_otp env) (uid u) 15 st2
            in (OkMessage ''Registered. Check your inbox for the verification link or OTP code.'',
                st3)))"

definition verify_email :: "env \<Rightarrow> string \<Rightarrow> state \<Rightarrow> response \<times> state" where
  "verify_email env tk st =
     (case find (\<lambda>t. token t = tk \<and> purpose t = ''verify'') (email_tokens st) of
        None \<Rightarrow> (Error400 ''Invalid or expired token'', st)
      | Some tok \<Rightarrow>
          if expires_at tok < t_now env then (Error400 ''Invalid or expired token'', st)
          else
            (case get_user st (tok_user_id tok) of
               None \<Rightarrow> (Error400 ''User not found'', st)
             | Some u \<Rightarrow>
                 (Redirect ''/login.html?verified=1'',
                  delete_token tok (commit_user (mark_verified u) st))))"

definition request_otp :: "env \<Rightarrow> string \<Rightarrow> state \<Rightarrow> response \<times> state" where
  "request_otp env raw_email st =
     (let e = py_strip (py_lower raw_email)
      in case user_by_email st e of
           None \<Rightarrow> (Error404 ''User not found'', st)
         | Some u \<Rightarrow>
             if is_verified u then (OkMessage ''Already verified'', st)
             else (OkMessage ''OTP sent'',
                   generate_otp_for_user (t_otp env) (new_otp env) (uid u) 15 st))"

definition verify_otp :: "env \<Rightarrow> string \<Rightarrow> string \<Rightarrow> state \<Rightarrow> response \<times> state" where
  "verify_otp env raw_email raw_code st =
     (let e = py_strip (py_lower raw_email);
          code = py_strip raw_code
      in if \<not> (length code = 6 \<and> list_all is_digit code)
         then (Error400 ''Invalid code format'', st)
         else
           (case user_by_email st e of
              None \<Rightarrow> (Error404 ''User not found'', st)
            | Some u \<Rightarrow>
                (case find (\<lambda>t. tok_user_id t = uid u \<and> purpose t = ''otp''
                                 \<and> t_now env \<le> expires_at t) (email_tokens st) of
                   None \<Rightarrow> (Error400 ''Invalid or expired code'', st)
                 | Some tok \<Rightarrow>
                     if token tok \<noteq> code then (Error400 ''Invalid or expired code'', st)
                     else (Ok, delete_token tok (commit_user (mark_verified u) st)))))"

definition login :: "env \<Rightarrow> string \<Rightarrow> string \<Rightarrow> bool \<Rightarrow> state \<Rightarrow> response \<times> state" where
  "login env raw_email password email_ok st =
     (let e = py_lower (py_strip raw_email)
      in if \<not> email_ok then (Error400 ''Invalid request body'', st)
         else
           (case user_by_email st e of
              None \<Rightarrow> (Error401 ''Invalid email or password'', st)
            | Some u \<Rightarrow>
                if \<not> verify_pw env password (password_hash u)
                then (Error401 ''Invalid email or password'', st)
                else (Ok, commit_user (u\<lparr>last_login_at := Some (t_now env)\<rparr>) st)))"

definition resend_verify :: "env \<Rightarrow> user option \<Rightarrow> state \<Rightarrow> response \<times> state" where
  "resend_verify env usr st =
     (case usr of
        None \<Rightarrow> (Error401 ''Not logged in'', st)
      | Some u \<Rightarrow>
          if is_verified u then (OkMessage ''Already verified'', st)
          else (Ok, new_email_token (t_tok env) (new_token env) (uid u) ''verify'' (60 * 24 * 3) st))"

subsection \<open>Google sign-in\<close>

text \<open>
  \<^verbatim>\<open>google_callback\<close> from the point where the userinfo document has been fetched:
  \<open>uinfo\<close> is \<open>None\<close> for every earlier exit (missing code, state mismatch, failed token
  exchange or userinfo call), none of which touches a table; otherwise it holds
  \<^verbatim>\<open>uinfo.get("email") or ""\<close> and \<^verbatim>\<open>bool(uinfo.get("email_verified"))\<close>.
\<close>

definition google_callback :: "env \<Rightarrow> (string \<times> bool) option \<Rightarrow> state \<Rightarrow> response \<times> state" where
  "google_callback env uinfo st =
     (case uinfo of
        None \<Rightarrow> (Error400 ''OAuth exchange failed'', st)
      | Some (raw_email, email_verified) \<Rightarrow>
          (let e = py_strip (py_lower raw_email)
           in if e = [] then (Error400 ''Google did not return an email'', st)
              else
                (case user_by_email st e of
                   None \<Rightarrow>
                     (Redirect ''/snap.html?google=1'',
                      st\<lparr>users := users st @
                         [\<lparr>uid = next_key (map uid (users st)), email = e,
                           password_hash = new_hash env, is_verified = email_verified,
                           free_credits = (if email_verified then 2 else 0),
                           verify_bonus_claimed = email_verified,
                           user_created_at = t_now env, last_login_at = None\<rparr>]\<rparr>)
                 | Some u \<Rightarrow>
                     (let u1 = (if email_verified \<and> \<not> is_verified u
                                then u\<lparr>is_verified := True\<rparr> else u);
                          u2 = (if email_verified \<and> \<not> verify_bonus_claimed u1
                                then u1\<lparr>free_credits := free_credits u1 + 2,
                                        verify_bonus_claimed := True\<rparr>
                                else u1)
                      in (Redirect ''/snap.html?google=1'', commit_user u2 st)))))"

text \<open>
  \<^verbatim>\<open>google_idtoken_login\<close>: \<open>info_email\<close> is the \<^verbatim>\<open>email\<close> claim of an ID token that
  verified, \<open>None\<close> for a missing or rejected token. The new row leaves
  \<^verbatim>\<open>verify_bonus_claimed\<close> to its column default, \<^verbatim>\<open>False\<close>.
\<close>

definition google_idtoken_login :: "env \<Rightarrow> string option \<Rightarrow> state \<Rightarrow> response \<times> state" where
  "google_idtoken_login env info_email st =
     (case info_email of
        None \<Rightarrow> (Error401 ''Invalid Google token'', st)
      | Some e \<Rightarrow>
          if e = [] then (Error401 ''Invalid Google token'', st)
          else
            (case user_by_email st e of
               None \<Rightarrow>
                 (Ok, st\<lparr>users := users st @
                        [\<lparr>uid = next_key (map uid (users st)), email = e,
                          password_hash = new_hash env, is_verified = True,
                          free_credits = 2, verify_bonus_claimed = False,
                          user_created_at = t_now env, last_login_at = None\<rparr>]\<rparr>)
             | Some u \<Rightarrow> (Ok, st)))"

subsection \<open>Credits API\<close>

definition credits_endpoint :: "env \<Rightarrow> int option \<Rightarrow> string option \<Rightarrow> state \<Rightarrow> response \<times> state" where
  "credits_endpoint env auth cookie st =
     (case get_current_user st auth of
        Some usr0 \<Rightarrow>
          (case get_user st (uid usr0) of
             None \<Rightarrow> (Error500, st)
           | Some u \<Rightarrow>
               (let used24 = count_last_24h (t_count env) st (Some (uid u)) None;
                    na = next_available_ts (py_timestamp env) (t_next env) st (uid u)
                in (UserSummary (email u) (is_verified u) (free_credits u) DAILY_FREE_LIMIT
                      used24 na, st)))
      | None \<Rightarrow>
          (case get_or_create_guest (t_seen env) (new_uuid env) cookie st of
             (g, st1) \<Rightarrow>
               (GuestSummary False (credits g) 0
                  (count_last_24h (t_count env) st1 None (Some (gid g))) None, st1)))"

subsection \<open>The server as a transition system\<close>

text \<open>
  One constructor per route that writes a table. \<^verbatim>\<open>/auth/resend-otp\<close> is
  \<^verbatim>\<open>request_otp\<close>; \<^verbatim>\<open>/auth/logout\<close>, \<^verbatim>\<open>/download\<close>, the Razorpay webhook and the
  diagnostic routes write none.
\<close>

datatype request =
    Register string string bool
  | VerifyEmail string
  | RequestOtp string
  | VerifyOtp string string
  | Login string string bool
  | ResendVerify "int option"
  | GoogleCallback "(string \<times> bool) option"
  | GoogleIdToken "string option"
  | Credits "int option" "string option"
  | StyleImage style_request

fun handle :: "env \<Rightarrow> request \<Rightarrow> state \<Rightarrow> response \<times> state" where
  "handle env (Register e p ok) st = register env e p ok st"
| "handle env (VerifyEmail tk) st = verify_email env tk st"
| "handle env (RequestOtp e) st = request_otp env e st"
| "handle env (VerifyOtp e c) st = verify_otp env e c st"
| "handle env (Login e p ok) st = login env e p ok st"
| "handle env (ResendVerify auth) st = resend_verify env (get_current_user st auth) st"
| "handle env (GoogleCallback ui) st = google_callback env ui st"
| "handle env (GoogleIdToken em) st = google_idtoken_login env em st"
| "handle env (Credits auth cookie) st = credits_endpoint env auth cookie st"
| "handle env (StyleImage rq) st = style_image env rq st"

text \<open>A run: the requests in the order they are served, each with what it read from outside.\<close>

fun run :: "(env \<times> request) list \<Rightarrow> state \<Rightarrow> state" where
  "run [] st = st"
| "run ((env, rq) # rest) st = run rest (snd (handle env rq st))"

subsection \<open>Notions used in the statements\<close>

text \<open>The balance of a guest, if the guest has a row.\<close>

definition guest_balance :: "state \<Rightarrow> string \<Rightarrow> int option" where
  "guest_balance st g = map_option credits (get_guest st g)"

text \<open>A handler run during which every read of the clock returns the same instant.\<close>

definition at_instant :: "datetime \<Rightarrow> env \<Rightarrow> env" where
  "at_instant now env =
     env\<lparr>t_count := now, t_next := now, t_wait := now, t_seen := now, t_log := now,
         t_now := now, t_tok := now, t_otp := now\<rparr>"

text \<open>An upload that passes both checks at the head of \<^verbatim>\<open>style_image\<close>.\<close>

definition valid_upload :: "style_request \<Rightarrow> bool" where
  "valid_upload rq =
     (startswith (py_lower (case file_content_type rq of None \<Rightarrow> [] | Some c \<Rightarrow> c)) ''image/''
      \<and> length (file_contents rq) \<le> 8 * 1024 * 1024)"

text \<open>The two refusals of the enforcement block: 429 (daily limit) and 402 (guest credits).\<close>

fun is_denial :: "response \<Rightarrow> bool" where
  "is_denial (Error429 e u l w m) = True"
| "is_denial (Error402 e c) = True"
| "is_denial r = False"

text \<open>No user and no guest holds a negative balance.\<close>

definition balances_nonneg :: "state \<Rightarrow> bool" where
  "balances_nonneg st =
     (list_all (\<lambda>u. 0 \<le> free_credits u) (users st) \<and> list_all (\<lambda>g. 0 \<le> credits g) (guests st))"

subsection \<open>Example data\<close>

definition empty_state :: state where
  "empty_state = \<lparr>users = [], email_tokens = [], guests = [], generation_logs = [],
                   upload_dir = Map.empty\<rparr>"

text \<open>
  An instant in November 2025, in microseconds. \<open>example_env\<close> is a process whose local
  time is UTC.
\<close>

definition noon :: datetime where
  "noon = 1762000000000000"

definition example_env :: env where
  "example_env = \<lparr>AI_PROVIDER = ''mock'', upload_time = 1762000000, styled_time = 1762000001,
     new_uuid = ''0f8fad5bd9cb469fa16570867728950e'', t_count = noon, t_next = noon,
     t_wait = noon, t_seen = noon, t_log = noon, stability_outcome = Inl ''timeout'',
     t_now = noon, t_tok = noon, t_otp = noon, new_token = ''tok-1'', new_otp = ''123456'',
     new_hash = ''$2b$12$abc'', verify_pw = (\<lambda>p h. False), py_timestamp = (\<lambda>t. t)\<rparr>"

definition example_upload :: style_request where
  "example_upload = \<lparr>req_auth = Some 1, req_guest_cookie = None,
     file_content_type = Some ''image/png'', file_contents = ''PNG'',
     file_filename = ''my room.png'', form_style = ''cozy'', form_instructions = [],
     base_url = ''http://127.0.0.1:8000/''\<rparr>"

text \<open>
  A user registers, spends the two slots of the daily quota while unverified, follows the
  verification link, and spends the two bonus credits, all within six seconds.
\<close>

definition quota_then_bonus_run :: "(env \<times> request) list" where
  "quota_then_bonus_run =
     [(at_instant noon example_env, Register ''a@x.io'' ''secret1'' True),
      (at_instant (noon + 1000000) example_env, StyleImage example_upload),
      (at_instant (noon + 2000000) example_env, StyleImage example_upload),
      (at_instant (noon + 3000000) example_env, VerifyEmail ''tok-1''),
      (at_instant (noon + 4000000) example_env, StyleImage example_upload),
      (at_instant (noon + 5000000) example_env, StyleImage example_upload)]"

text \<open>A first sign-in with the Google button, then one through the redirect flow.\<close>

definition idtoken_then_callback_run :: "(env \<times> request) list" where
  "idtoken_then_callback_run =
     [(at_instant noon example_env, GoogleIdToken (Some ''c@x.io'')),
      (at_instant (noon + 1000000) example_env, GoogleCallback (Some (''c@x.io'', True)))]"

text \<open>The row of a user who signed up through the redirect flow with a verified address.\<close>

definition google_user :: user where
  "google_user = \<lparr>uid = 1, email = ''b@x.io'', password_hash = ''$2b$12$abc'',
     is_verified = True, free_credits = 2, verify_bonus_claimed = True,
     user_created_at = noon, last_login_at = None\<rparr>"

text \<open>The row of a user who registered with a password and has not verified.\<close>

definition registered_user :: user where
  "registered_user = \<lparr>uid = 1, email = ''a@x.io'', password_hash = ''$2b$12$abc'',
     is_verified = False, free_credits = 0, verify_bonus_claimed = False,
     user_created_at = noon, last_login_at = None\<rparr>"

text \<open>Three usage events of user 1 in the minute before \<open>noon\<close>.\<close>

definition three_recent_logs :: "generation_log list" where
  "three_recent_logs =
     [\<lparr>user_id = Some 1, guest_id = None, created_at = noon - 50000000\<rparr>,
      \<lparr>user_id = Some 1, guest_id = None, created_at = noon - 30000000\<rparr>,
      \<lparr>user_id = Some 1, guest_id = None, created_at = noon - 10000000\<rparr>]"

text \<open>
  The \<^verbatim>\<open>created_at\<close> that \<^verbatim>\<open>next_available_ts\<close> reads: that of the row at index
  \<open>DAILY_FREE_LIMIT - 1\<close> of the user's rows in the window, most recent first.
\<close>

definition kth_recent :: "datetime \<Rightarrow> state \<Rightarrow> int \<Rightarrow> datetime" where
  "kth_recent now st i = created_at (window_logs_desc now st i ! (DAILY_FREE_LIMIT - 1))"

text \<open>
  A user registers and spends the daily quota half a second and 0.7 seconds after
  \<open>noon\<close> of the day before.
\<close>

definition aging_quota_run :: "(env \<times> request) list" where
  "aging_quota_run =
     [(at_instant (noon - hours24) example_env, Register ''a@x.io'' ''secret1'' True),
      (at_instant (noon - hours24 + 500000) example_env, StyleImage example_upload),
      (at_instant (noon - hours24 + 700000) example_env, StyleImage example_upload)]"

text \<open>A guest whose two credits are spent, and an upload sent with that guest's cookie.\<close>

definition spent_guest_state :: state where
  "spent_guest_state =
     empty_state\<lparr>guests := [\<lparr>gid = ''g0'', credits = 0, guest_created_at = noon - 100,
                              last_seen = noon - 50\<rparr>]\<rparr>"

definition guest_upload :: style_request where
  "guest_upload = example_upload\<lparr>req_auth := None, req_guest_cookie := Some ''g0''\<rparr>"

text \<open>
  \<^verbatim>\<open>.timestamp()\<close> in a process whose zone is America/New\_York, for readings around
  2 November 2025: a reading before 02:00 of that day is daylight time, four hours behind
  UTC, a later one standard time, five hours behind.
\<close>

definition eastern_timestamp :: "datetime \<Rightarrow> int" where
  "eastern_timestamp t =
     (if t < 1762048800000000 then t + 4 * 3600 * 1000000 else t + 5 * 3600 * 1000000)"

text \<open>A user registers a minute before \<open>noon\<close> and spends the daily quota 50 and 30 seconds
  before \<open>noon\<close>.\<close>

definition recent_quota_run :: "(env \<times> request) list" where
  "recent_quota_run =
     [(at_instant (noon - 60000000) example_env, Register ''a@x.io'' ''secret1'' True),
      (at_instant (noon - 50000000) example_env, StyleImage example_upload),
      (at_instant (noon - 30000000) example_env, StyleImage example_upload)]"

section \<open>Properties\<close>

subsection \<open>Rows of a table\<close>

lemma find_commit_same:
  "find (\<lambda>x. f x = f v) xs = Some y \<Longrightarrow>
   find (\<lambda>x. f x = f v) (map (\<lambda>x. if f x = f v then v else x) xs) = Some v"
  by (induction xs) (auto split: if_splits)

lemma find_commit_other:
  "k \<noteq> f v \<Longrightarrow>
   find (\<lambda>x. f x = k) (map (\<lambda>x. if f x = f v then v else x) xs) = find (\<lambda>x. f x = k) xs"
  by (induction xs) auto

lemma find_Some_key: "find (\<lambda>x. f x = k) xs = Some y \<Longrightarrow> f y = k"
  by (induction xs) (auto split: if_splits)

lemma find_snoc:
  "find P (xs @ [x]) =
     (case find P xs of Some y \<Rightarrow> Some y | None \<Rightarrow> if P x then Some x else None)"
  by (induction xs) auto

lemma get_guest_gid: "get_guest st g = Some gg \<Longrightarrow> gid gg = g"
  unfolding get_guest_def by (rule find_Some_key)

lemma get_user_uid: "get_user st i = Some u \<Longrightarrow> uid u = i"
  unfolding get_user_def by (rule find_Some_key)

lemma get_guest_commit_same:
  "get_guest st (gid v) = Some y \<Longrightarrow> get_guest (commit_guest v st) (gid v) = Some v"
  unfolding get_guest_def commit_guest_def by (simp add: find_commit_same)

lemma get_guest_commit_other:
  "k \<noteq> gid v \<Longrightarrow> get_guest (commit_guest v st) k = get_guest st k"
  unfolding get_guest_def commit_guest_def by (simp add: find_commit_other)

lemma get_user_commit_same:
  "get_user st (uid v) = Some y \<Longrightarrow> get_user (commit_user v st) (uid v) = Some v"
  unfolding get_user_def commit_user_def by (simp add: find_commit_same)

lemma get_user_commit_other:
  "k \<noteq> uid v \<Longrightarrow> get_user (commit_user v st) k = get_user st k"
  unfolding get_user_def commit_user_def by (simp add: find_commit_other)

lemma get_current_user_Some:
  assumes "get_current_user st auth = Some u"
  shows "get_user st (uid u) = Some u" and "uid u \<noteq> 0" and "auth = Some (uid u)"
proof -
  from assms obtain i where i: "auth = Some i" "i \<noteq> 0" "get_user st i = Some u"
    by (auto simp: get_current_user_def split: option.splits if_splits)
  have k: "uid u = i" using i(3) by (rule get_user_uid)
  show "get_user st (uid u) = Some u" using i(3) k by simp
  show "uid u \<noteq> 0" using i(2) k by simp
  show "auth = Some (uid u)" using i(1) k by simp
qed

subsection \<open>\<^verbatim>\<open>int(str(n))\<close> is \<open>n\<close>\<close>

declare str_nat.simps [simp del]

lemma digit_char_cases:
  assumes "d < 10"
  shows "digit_val (digit_char d) = d \<and> is_digit (digit_char d) \<and> digit_char d \<noteq> CHR ''-''"
proof -
  from assms have "d \<in> {0, 1, 2, 3, 4, 5, 6, 7, 8, 9}" by auto
  then show ?thesis
    by (auto simp: digit_char_def digit_val_def is_digit_def)
qed

lemma parse_nat_snoc: "parse_nat (s @ [c]) = 10 * parse_nat s + digit_val c"
  by (simp add: parse_nat_def)

lemma str_nat_digits: "list_all is_digit (str_nat n)"
proof (induction n rule: str_nat.induct)
  case (1 n)
  show ?case
  proof (cases "n < 10")
    case True
    then show ?thesis by (subst str_nat.simps) (simp add: digit_char_cases)
  next
    case False
    then have "list_all is_digit (str_nat (n div 10))" using 1 by simp
    moreover have "is_digit (digit_char (n mod 10))" by (simp add: digit_char_cases)
    ultimately show ?thesis using False by (subst str_nat.simps) simp
  qed
qed

lemma str_nat_nonempty: "str_nat n \<noteq> []"
  by (subst str_nat.simps) simp

lemma parse_str_nat: "parse_nat (str_nat n) = n"
proof (induction n rule: str_nat.induct)
  case (1 n)
  show ?case
  proof (cases "n < 10")
    case True
    then show ?thesis by (subst str_nat.simps) (simp add: parse_nat_def digit_char_cases)
  next
    case False
    then have "parse_nat (str_nat (n div 10)) = n div 10" using 1 by simp
    then show ?thesis using False
      by (subst str_nat.simps) (simp add: parse_nat_snoc digit_char_cases)
  qed
qed

lemma str_nat_no_sign: "str_nat n = c # ds \<Longrightarrow> c \<noteq> CHR ''-''"
proof -
  assume a: "str_nat n = c # ds"
  have "list_all is_digit (str_nat n)" by (rule str_nat_digits)
  with a have "is_digit c" by simp
  then show ?thesis by (auto simp: is_digit_def)
qed

lemma int_of_str_str_int: "int_of_str (str_int i) = Some i"
proof (cases "i < 0")
  case True
  then show ?thesis
    by (simp add: int_of_str_def str_int_def str_nat_nonempty str_nat_digits parse_str_nat)
next
  case False
  obtain c ds where cd: "str_nat (nat i) = c # ds"
    using str_nat_nonempty [of "nat i"] by (cases "str_nat (nat i)") auto
  have ns: "c \<noteq> CHR ''-''" using cd by (rule str_nat_no_sign)
  have dg: "list_all is_digit (c # ds)" using str_nat_digits [of "nat i"] cd by simp
  have pn: "parse_nat (c # ds) = nat i" using parse_str_nat [of "nat i"] cd by simp
  show ?thesis using False ns dg pn
    by (simp add: int_of_str_def str_int_def cd)
qed

subsection \<open>Evaluating the model on concrete inputs\<close>

lemmas model_defs =
  register_def verify_email_def verify_otp_def request_otp_def login_def resend_verify_def
  google_callback_def google_idtoken_login_def credits_endpoint_def
  style_image_def enforce_credits_def generation_def
  log_after_generation_def log_generation_db_def get_current_user_def get_user_def
  get_guest_def commit_guest_def get_or_create_guest_def guest_cookie_id_def
  user_by_email_def commit_user_def count_last_24h_def next_available_ts_def
  window_logs_desc_def user_window_logs_def retry_after_seconds_def daily_limit_reply_def
  guest_exhausted_reply_def
  new_email_token_def generate_otp_for_user_def delete_token_def mark_verified_def
  next_key_def py_lower_def py_strip_def is_space_def startswith_def replace_space_def
  rstrip_slash_def abs_url_def style_or_custom_def truthy_int_def truthy_str_def
  str_int_def digit_char_def int_of_str_def is_digit_def parse_nat_def digit_val_def
  hours24_def minutes_def DAILY_FREE_LIMIT_def at_instant_def example_env_def noon_def
  eastern_timestamp_def
  empty_state_def example_upload_def Let_def str_nat.simps safe_name_def write_upload_def

subsection \<open>The user branch of the enforcement block\<close>

lemma count_last_24h_user:
  "i \<noteq> 0 \<Longrightarrow> count_last_24h now st (Some i) None = length (user_window_logs now st i)"
  by (simp add: count_last_24h_def user_window_logs_def truthy_int_def truthy_str_def
        Let_def conj_commute)

lemma enforce_user:
  assumes "get_user st (uid u) = Some u" and "uid u \<noteq> 0"
  shows "enforce_credits env (Some u) cookie st =
     (if is_verified u \<and> 0 < free_credits u
      then (Proceed ''user'' (str_int (uid u)),
            commit_user (u\<lparr>free_credits := free_credits u - 1\<rparr>) st)
      else if DAILY_FREE_LIMIT \<le> length (user_window_logs (t_count env) st (uid u))
      then (Reply (daily_limit_reply (length (user_window_logs (t_count env) st (uid u)))
              (retry_after_seconds
                 (next_available_ts (py_timestamp env) (t_next env) st (uid u))
                 (py_timestamp env (t_wait env)))),
            st)
      else (Proceed ''user'' (str_int (uid u)), st))"
  using assms by (simp add: enforce_credits_def Let_def count_last_24h_user)

lemma get_current_user_logs [simp]:
  "get_current_user (st\<lparr>generation_logs := logs\<rparr>) auth = get_current_user st auth"
  by (simp add: get_current_user_def get_user_def split: option.splits)

text \<open>
  C5. A signed-in user \<open>u\<close> who is verified and holds a positive \<^verbatim>\<open>free_credits\<close> passes
  the enforcement block as \<^verbatim>\<open>user\<close> with \<^verbatim>\<open>free_credits\<close> one lower in the committed
  row, whatever usage log \<open>logs\<close> the state holds (so also when the trailing window is
  already full), and the block leaves the log as it was. A signed-in user \<open>u'\<close> who is not
  verified never has anything debited: the block returns the state it was given.
\<close>

theorem prepaid_before_window:
  assumes "get_current_user st auth = Some u" and "is_verified u" and "0 < free_credits u"
    and "get_current_user st' auth' = Some u'" and "\<not> is_verified u'"
  shows "enforce_credits env (Some u) cookie (st\<lparr>generation_logs := logs\<rparr>) =
           (Proceed ''user'' (str_int (uid u)),
            commit_user (u\<lparr>free_credits := free_credits u - 1\<rparr>)
              (st\<lparr>generation_logs := logs\<rparr>))
       \<and> get_user (snd (enforce_credits env (Some u) cookie (st\<lparr>generation_logs := logs\<rparr>)))
             (uid u)
           = Some (u\<lparr>free_credits := free_credits u - 1\<rparr>)
       \<and> generation_logs
             (snd (enforce_credits env (Some u) cookie (st\<lparr>generation_logs := logs\<rparr>)))
           = logs
       \<and> snd (enforce_credits env' (Some u') cookie' st') = st'"
proof -
  let ?st = "st\<lparr>generation_logs := logs\<rparr>"
  let ?u1 = "u\<lparr>free_credits := free_credits u - 1\<rparr>"
  have cu: "get_current_user ?st auth = Some u" using assms(1) by simp
  have g: "get_user ?st (uid u) = Some u" and nz: "uid u \<noteq> 0"
    using get_current_user_Some [OF cu] by simp_all
  have e: "enforce_credits env (Some u) cookie ?st =
             (Proceed ''user'' (str_int (uid u)), commit_user ?u1 ?st)"
    using enforce_user [OF g nz, of env cookie] assms(2,3) by simp
  have "get_user ?st (uid ?u1) = Some u" using g by simp
  then have "get_user (commit_user ?u1 ?st) (uid ?u1) = Some ?u1"
    by (rule get_user_commit_same)
  then have p: "get_user (commit_user ?u1 ?st) (uid u) = Some ?u1" by simp
  have l: "generation_logs (commit_user ?u1 ?st) = logs" by (simp add: commit_user_def)
  have g': "get_user st' (uid u') = Some u'" and nz': "uid u' \<noteq> 0"
    using get_current_user_Some [OF assms(4)] by simp_all
  have u: "snd (enforce_credits env' (Some u') cookie' st') = st'"
    using enforce_user [OF g' nz', of env' cookie'] assms(5) by simp
  show ?thesis using e p l u by simp
qed

theorem prepaid_before_window_witness:
  "enforce_credits example_env (Some google_user) None
       (empty_state\<lparr>users := [google_user], generation_logs := three_recent_logs\<rparr>) =
     (Proceed ''user'' ''1'',
      empty_state\<lparr>users := [google_user\<lparr>free_credits := 1\<rparr>],
                  generation_logs := three_recent_logs\<rparr>)
   \<and> length (user_window_logs noon
         (empty_state\<lparr>users := [google_user], generation_logs := three_recent_logs\<rparr>) 1) = 3
   \<and> snd (enforce_credits example_env (Some registered_user) None
         (empty_state\<lparr>users := [registered_user], generation_logs := three_recent_logs\<rparr>))
       = empty_state\<lparr>users := [registered_user], generation_logs := three_recent_logs\<rparr>"
  using prepaid_before_window [where st = "empty_state\<lparr>users := [google_user]\<rparr>"
      and auth = "Some 1" and u = google_user and logs = three_recent_logs
      and st' = "empty_state\<lparr>users := [registered_user], generation_logs := three_recent_logs\<rparr>"
      and auth' = "Some 1" and u' = registered_user and env = example_env and cookie = None
      and env' = example_env and cookie' = None]
  by (simp add: google_user_def registered_user_def three_recent_logs_def model_defs)

text \<open>
  C3, as the code has it. For a signed-in user who is verified and holds no
  \<^verbatim>\<open>free_credits\<close>, let \<open>n\<close> be the number of that user's usage events in the 24 hours
  before the clock read of \<^verbatim>\<open>count_last_24h\<close>. If \<open>n\<close> is at least \<open>DAILY_FREE_LIMIT\<close>
  the block answers 429 with \<^verbatim>\<open>used_last_24h = n\<close> (which is \<open>DAILY_FREE_LIMIT\<close> when
  \<open>n\<close> is exactly the limit) and \<^verbatim>\<open>daily_limit = DAILY_FREE_LIMIT\<close>; otherwise the request
  passes as \<^verbatim>\<open>user\<close>. In both cases the state is returned as it was: no counter is
  decremented.
\<close>

theorem daily_quota_decision:
  assumes "get_current_user st auth = Some u" and "is_verified u" and "free_credits u = 0"
  shows "enforce_credits env (Some u) cookie st =
     (if DAILY_FREE_LIMIT \<le> length (user_window_logs (t_count env) st (uid u))
      then (Reply (Error429 ''Daily free limit reached.''
                     (length (user_window_logs (t_count env) st (uid u))) DAILY_FREE_LIMIT
                     (retry_after_seconds
                        (next_available_ts (py_timestamp env) (t_next env) st (uid u))
                        (py_timestamp env (t_wait env)))
                     ''Please wait or purchase a plan to continue.''), st)
      else (Proceed ''user'' (str_int (uid u)), st))"
proof -
  have g: "get_user st (uid u) = Some u" and nz: "uid u \<noteq> 0"
    using get_current_user_Some [OF assms(1)] by simp_all
  show ?thesis
    using enforce_user [OF g nz, of env cookie] assms(3) by (simp add: daily_limit_reply_def)
qed

theorem daily_quota_decision_witness:
  "enforce_credits example_env (Some (google_user\<lparr>free_credits := 0\<rparr>)) None
       (empty_state\<lparr>users := [google_user\<lparr>free_credits := 0\<rparr>],
                   generation_logs := take 2 three_recent_logs\<rparr>) =
     (Reply (Error429 ''Daily free limit reached.'' 2 2 86350
               ''Please wait or purchase a plan to continue.''),
      empty_state\<lparr>users := [google_user\<lparr>free_credits := 0\<rparr>],
                  generation_logs := take 2 three_recent_logs\<rparr>)"
  using daily_quota_decision [where st = "empty_state\<lparr>users := [google_user\<lparr>free_credits := 0\<rparr>],
                   generation_logs := take 2 three_recent_logs\<rparr>"
      and auth = "Some 1" and u = "google_user\<lparr>free_credits := 0\<rparr>" and env = example_env
      and cookie = None]
  by (simp add: google_user_def three_recent_logs_def model_defs)

text \<open>
  C3, as the claim states it, fails: usage events of the prepaid bucket count in the window
  too. After \<open>quota_then_bonus_run\<close> the user is verified with no credits left and four
  events in the window, and the next request is answered 429 with
  \<^verbatim>\<open>used_last_24h = 4\<close>, not \<open>DAILY_FREE_LIMIT = 2\<close>.
\<close>

theorem daily_quota_used_exceeds_limit:
  "map is_verified (users (run quota_then_bonus_run empty_state)) = [True]
   \<and> map free_credits (users (run quota_then_bonus_run empty_state)) = [0]
   \<and> fst (handle (at_instant (noon + 6000000) example_env) (StyleImage example_upload)
          (run quota_then_bonus_run empty_state))
       = Error429 ''Daily free limit reached.'' 4 2 86398
           ''Please wait or purchase a plan to continue.''
   \<and> DAILY_FREE_LIMIT = 2"
  by (simp add: quota_then_bonus_run_def model_defs)

subsection \<open>The verification bonus\<close>

lemma mark_verified_idem: "mark_verified (mark_verified u) = mark_verified u"
  by (simp add: mark_verified_def Let_def)

lemma mark_verified_credits:
  "free_credits (mark_verified u) =
     (if verify_bonus_claimed u then free_credits u else free_credits u + 2)"
  by (simp add: mark_verified_def Let_def)

text \<open>
  C1. The paths through the e-mail link, the OTP and the redirect flow add the bonus only
  while \<^verbatim>\<open>verify_bonus_claimed\<close> is false and set it. \<^verbatim>\<open>google_idtoken_login\<close> creates
  the row with \<^verbatim>\<open>is_verified = True\<close> and \<^verbatim>\<open>free_credits = 2\<close> and leaves the flag false,
  so a later sign-in of the same address through the redirect flow adds the bonus again:
  after \<open>idtoken_then_callback_run\<close> the user holds 4 credits, 2 after its first request alone.
\<close>

theorem idtoken_then_callback_grants_twice:
  "map free_credits (users (run (take 1 idtoken_then_callback_run) empty_state)) = [2]
   \<and> map verify_bonus_claimed (users (run (take 1 idtoken_then_callback_run) empty_state))
       = [False]
   \<and> map free_credits (users (run idtoken_then_callback_run empty_state)) = [4]"
  by (simp add: idtoken_then_callback_run_def model_defs)

subsection \<open>The row that \<^verbatim>\<open>next_available_ts\<close> reads\<close>

lemma sorted_key_drop_ge:
  assumes "sorted (map f zs)" and "m < length zs" and "x \<in> set (drop m zs)"
  shows "f (zs ! m) \<le> f x"
proof -
  from assms(3) obtain k where k: "k < length zs - m" "x = zs ! (m + k)"
    by (auto simp: in_set_conv_nth)
  have "map f zs ! m \<le> map f zs ! (m + k)"
    using assms(1) k(1) by (intro sorted_nth_mono) auto
  then show ?thesis using k assms(2) by simp
qed

lemma sorted_key_take_le:
  assumes "sorted (map f zs)" and "m < length zs" and "x \<in> set (take (Suc m) zs)"
  shows "f x \<le> f (zs ! m)"
proof -
  from assms(3) obtain k where k: "k < Suc m" "k < length zs" "x = zs ! k"
    by (auto simp: in_set_conv_nth)
  have "map f zs ! k \<le> map f zs ! m"
    using assms(1,2) k(1) by (intro sorted_nth_mono) auto
  then show ?thesis using k assms(2) by simp
qed

lemma sorted_key_count_above:
  fixes f :: "'a \<Rightarrow> int"
  assumes "sorted (map f zs)" and "m < length zs"
  shows "length (filter (\<lambda>x. f (zs ! m) < f x) zs) \<le> length zs - Suc m"
proof -
  have "filter (\<lambda>x. f (zs ! m) < f x) (take (Suc m) zs) = []"
    using sorted_key_take_le [OF assms] by (fastforce simp: filter_empty_conv)
  then have "filter (\<lambda>x. f (zs ! m) < f x) zs
             = filter (\<lambda>x. f (zs ! m) < f x) (drop (Suc m) zs)"
    using filter_append [of "\<lambda>x. f (zs ! m) < f x" "take (Suc m) zs" "drop (Suc m) zs"]
    by simp
  moreover have "length (filter (\<lambda>x. f (zs ! m) < f x) (drop (Suc m) zs))
                 \<le> length (drop (Suc m) zs)"
    by (rule length_filter_le)
  ultimately show ?thesis by simp
qed

lemma sorted_key_count_from:
  fixes f :: "'a \<Rightarrow> int"
  assumes "sorted (map f zs)" and "m < length zs"
  shows "length zs - m \<le> length (filter (\<lambda>x. f (zs ! m) \<le> f x) zs)"
proof -
  have "filter (\<lambda>x. f (zs ! m) \<le> f x) (drop m zs) = drop m zs"
    using sorted_key_drop_ge [OF assms] by (fastforce simp: filter_id_conv)
  then have "length (filter (\<lambda>x. f (zs ! m) \<le> f x) zs)
             = length (filter (\<lambda>x. f (zs ! m) \<le> f x) (take m zs)) + length (drop m zs)"
    using filter_append [of "\<lambda>x. f (zs ! m) \<le> f x" "take m zs" "drop m zs"]
    by simp
  then show ?thesis by simp
qed

lemma length_filter_sort_key: "length (filter P (sort_key f xs)) = length (filter P xs)"
  by (simp add: filter_sort)

text \<open>
  The element at index \<open>j\<close> of a list sorted most recent first: at most \<open>j\<close> elements
  are strictly more recent, at least \<open>j + 1\<close> are at least as recent.
\<close>

lemma desc_rank:
  fixes f :: "'a \<Rightarrow> int"
  assumes "j < length xs"
  shows "length (filter (\<lambda>x. f (rev (sort_key f xs) ! j) < f x) xs) \<le> j"
    and "Suc j \<le> length (filter (\<lambda>x. f (rev (sort_key f xs) ! j) \<le> f x) xs)"
    and "rev (sort_key f xs) ! j \<in> set xs"
proof -
  let ?zs = "sort_key f xs"
  let ?m = "length xs - Suc j"
  have m: "?m < length ?zs" using assms by simp
  have e: "rev ?zs ! j = ?zs ! ?m" using assms by (simp add: rev_nth)
  have s: "sorted (map f ?zs)" by simp
  have "length (filter (\<lambda>x. f (?zs ! ?m) < f x) ?zs) \<le> length ?zs - Suc ?m"
    using s m by (rule sorted_key_count_above)
  then show "length (filter (\<lambda>x. f (rev ?zs ! j) < f x) xs) \<le> j"
    using assms by (simp add: e length_filter_sort_key)
  have "length ?zs - ?m \<le> length (filter (\<lambda>x. f (?zs ! ?m) \<le> f x) ?zs)"
    using s m by (rule sorted_key_count_from)
  then show "Suc j \<le> length (filter (\<lambda>x. f (rev ?zs ! j) \<le> f x) xs)"
    using assms by (simp add: e length_filter_sort_key)
  have "?zs ! ?m \<in> set ?zs" using m by (rule nth_mem)
  then show "rev ?zs ! j \<in> set xs" using e by simp
qed

lemma user_window_logs_mem:
  "l \<in> set (user_window_logs now st i) \<Longrightarrow>
     l \<in> set (generation_logs st) \<and> user_id l = Some i \<and> now - hours24 \<le> created_at l"
  by (simp add: user_window_logs_def)

lemma next_available_ts_kth:
  "next_available_ts ts now st i =
     (if length (user_window_logs now st i) < DAILY_FREE_LIMIT then None
      else Some (ts (kth_recent now st i + hours24)))"
  by (simp add: next_available_ts_def kth_recent_def window_logs_desc_def Let_def)

lemma kth_recent_in_window:
  assumes "DAILY_FREE_LIMIT \<le> length (user_window_logs now st i)"
  shows "\<exists>l \<in> set (user_window_logs now st i). kth_recent now st i = created_at l"
proof -
  have j: "DAILY_FREE_LIMIT - 1 < length (user_window_logs now st i)"
    using assms by (simp add: DAILY_FREE_LIMIT_def)
  show ?thesis
    using desc_rank(3) [OF j, of created_at]
    by (auto simp: kth_recent_def window_logs_desc_def)
qed

lemma kth_recent_rank:
  assumes "DAILY_FREE_LIMIT \<le> length (user_window_logs now st i)"
  shows "length (filter (\<lambda>l. kth_recent now st i < created_at l) (user_window_logs now st i))
           < DAILY_FREE_LIMIT"
    and "DAILY_FREE_LIMIT \<le> length (filter (\<lambda>l. kth_recent now st i \<le> created_at l)
                                   (user_window_logs now st i))"
    and "now - hours24 \<le> kth_recent now st i"
    and "(\<forall>l \<in> set (generation_logs st). created_at l \<le> t) \<Longrightarrow> kth_recent now st i \<le> t"
proof -
  let ?W = "user_window_logs now st i"
  let ?k = "kth_recent now st i"
  have j: "DAILY_FREE_LIMIT - 1 < length ?W" using assms by (simp add: DAILY_FREE_LIMIT_def)
  have k: "?k = created_at (rev (sort_key created_at ?W) ! (DAILY_FREE_LIMIT - 1))"
    by (simp add: kth_recent_def window_logs_desc_def)
  show "length (filter (\<lambda>l. ?k < created_at l) ?W) < DAILY_FREE_LIMIT"
    using desc_rank(1) [OF j, of created_at] by (simp add: k DAILY_FREE_LIMIT_def)
  show "DAILY_FREE_LIMIT \<le> length (filter (\<lambda>l. ?k \<le> created_at l) ?W)"
    using desc_rank(2) [OF j, of created_at] by (simp add: k DAILY_FREE_LIMIT_def)
  from kth_recent_in_window [OF assms] obtain l where l: "l \<in> set ?W" "?k = created_at l"
    by auto
  show "now - hours24 \<le> ?k" using user_window_logs_mem [OF l(1)] l(2) by simp
  show "(\<forall>l \<in> set (generation_logs st). created_at l \<le> t) \<Longrightarrow> ?k \<le> t"
    using user_window_logs_mem [OF l(1)] l(2) by auto
qed

text \<open>What a 429 of the enforcement block was computed from.\<close>

lemma daily_limit_denial:
  assumes "get_user st (uid u) = Some u" and "uid u \<noteq> 0"
    and "enforce_credits env (Some u) cookie st = (Reply (Error429 e used lim w m), st')"
  shows "st' = st" and "used = length (user_window_logs (t_count env) st (uid u))"
    and "lim = DAILY_FREE_LIMIT"
    and "DAILY_FREE_LIMIT \<le> length (user_window_logs (t_count env) st (uid u))"
    and "w = retry_after_seconds
               (next_available_ts (py_timestamp env) (t_next env) st (uid u))
               (py_timestamp env (t_wait env))"
    and "\<not> (is_verified u \<and> 0 < free_credits u)"
  using assms(3) enforce_user [OF assms(1,2), of env cookie]
  by (auto simp: daily_limit_reply_def split: if_splits)

lemma whole_seconds_nonneg: "0 \<le> max 0 (d :: int) div 1000000"
  by simp

lemma retry_after_seconds_nonneg: "0 \<le> retry_after_seconds ts now_ts"
  by (simp add: retry_after_seconds_def whole_seconds_nonneg split: option.splits)

lemma whole_seconds_positive:
  fixes d :: int
  shows "0 < max 0 d div 1000000 \<longleftrightarrow> 1000000 \<le> d"
proof (cases "0 \<le> d")
  case True
  then show ?thesis by (simp add: max_def pos_imp_zdiv_pos_iff)
next
  case False
  then show ?thesis by (simp add: max_def)
qed

lemma whole_seconds_at_most_day:
  fixes d :: int
  assumes "d \<le> 24 * 3600 * 1000000"
  shows "max 0 d div 1000000 \<le> 24 * 3600"
proof -
  have "max 0 d \<le> 86400 * 1000000" using assms by simp
  then have "max 0 d div 1000000 \<le> 86400 * 1000000 div 1000000"
    by (rule zdiv_mono1) simp
  then show ?thesis by simp
qed

text \<open>
  C4, as the code has it. Let a signed-in user be answered 429 with
  \<^verbatim>\<open>retry_after_seconds = w\<close>, for any clock reads and any local-time conversion, and let
  \<open>t\<^sub>k\<close> be \<open>kth_recent\<close> at the clock read of \<^verbatim>\<open>next_available_ts\<close>. Then \<open>w\<close> is never
  negative. If \<^verbatim>\<open>next_available_ts\<close> finds fewer than \<open>DAILY_FREE_LIMIT\<close> rows at its
  own read, or its result is \<^verbatim>\<open>0.0\<close>, \<open>w\<close> is the fallback 3600. Otherwise \<open>w\<close> is the
  whole seconds, not below 0, of \<^verbatim>\<open>.timestamp()\<close> of \<open>t\<^sub>k + 24h\<close> minus
  \<^verbatim>\<open>.timestamp()\<close> of the clock read of the wait, and \<open>t\<^sub>k\<close> is the
  \<open>DAILY_FREE_LIMIT\<close>-th most recent event of the user in the window (fewer than
  \<open>DAILY_FREE_LIMIT\<close> events of the window are strictly more recent, at least
  \<open>DAILY_FREE_LIMIT\<close> are at least as recent). In a process whose local time is a
  constant \<open>off\<close> ahead of UTC, with no usage event stamped later than the clock read
  \<open>now\<close> of the wait, \<open>w\<close> is at most 86400, and outside the fallback it is the whole
  seconds, not below 0, of \<open>(t\<^sub>k + 24h) - now\<close>, positive exactly when at least one full
  second remains.
\<close>

theorem retry_after_whole_seconds:
  assumes "get_current_user st auth = Some u"
    and "enforce_credits env (Some u) cookie st = (Reply (Error429 e used lim w m), st')"
  shows "0 \<le> w
    \<and> (if length (user_window_logs (t_next env) st (uid u)) < DAILY_FREE_LIMIT
          \<or> py_timestamp env (kth_recent (t_next env) st (uid u) + hours24) = 0
       then w = 3600
       else w = max 0 (py_timestamp env (kth_recent (t_next env) st (uid u) + hours24)
                        - py_timestamp env (t_wait env)) div 1000000
          \<and> length (filter (\<lambda>l. kth_recent (t_next env) st (uid u) < created_at l)
                      (user_window_logs (t_next env) st (uid u))) < DAILY_FREE_LIMIT
          \<and> DAILY_FREE_LIMIT \<le> length (filter (\<lambda>l. kth_recent (t_next env) st (uid u)
                                                    \<le> created_at l)
                                         (user_window_logs (t_next env) st (uid u)))
          \<and> t_next env - hours24 \<le> kth_recent (t_next env) st (uid u))
    \<and> ((\<forall>t. py_timestamp env t = t - off)
         \<and> (\<forall>l \<in> set (generation_logs st). created_at l \<le> t_wait env)
        \<longrightarrow> w \<le> 24 * 3600
          \<and> (if length (user_window_logs (t_next env) st (uid u)) < DAILY_FREE_LIMIT
                \<or> kth_recent (t_next env) st (uid u) + hours24 = off
             then w = 3600
             else w = max 0 (kth_recent (t_next env) st (uid u) + hours24 - t_wait env)
                        div 1000000
                \<and> (0 < w \<longleftrightarrow>
                     1000000 \<le> kth_recent (t_next env) st (uid u) + hours24 - t_wait env)))"
proof -
  let ?W = "user_window_logs (t_next env) st (uid u)"
  let ?k = "kth_recent (t_next env) st (uid u)"
  let ?ts = "py_timestamp env (?k + hours24)"
  have g: "get_user st (uid u) = Some u" and nz: "uid u \<noteq> 0"
    using get_current_user_Some [OF assms(1)] by simp_all
  have w: "w = retry_after_seconds (next_available_ts (py_timestamp env) (t_next env) st (uid u))
                 (py_timestamp env (t_wait env))"
    by (rule daily_limit_denial(5) [OF g nz assms(2)])
  have A: "0 \<le> w" using w by (simp add: retry_after_seconds_nonneg)
  have B: "if length ?W < DAILY_FREE_LIMIT \<or> ?ts = 0 then w = 3600
       else w = max 0 (?ts - py_timestamp env (t_wait env)) div 1000000
          \<and> length (filter (\<lambda>l. ?k < created_at l) ?W) < DAILY_FREE_LIMIT
          \<and> DAILY_FREE_LIMIT \<le> length (filter (\<lambda>l. ?k \<le> created_at l) ?W)
          \<and> t_next env - hours24 \<le> ?k"
  proof (cases "length ?W < DAILY_FREE_LIMIT")
    case True
    then show ?thesis using w by (simp add: next_available_ts_kth retry_after_seconds_def)
  next
    case False
    then have full: "DAILY_FREE_LIMIT \<le> length ?W" by simp
    show ?thesis
      using w False kth_recent_rank(1,2,3) [OF full]
      by (simp add: next_available_ts_kth retry_after_seconds_def)
  qed
  have C: "w \<le> 24 * 3600
        \<and> (if length ?W < DAILY_FREE_LIMIT \<or> ?k + hours24 = off then w = 3600
           else w = max 0 (?k + hours24 - t_wait env) div 1000000
              \<and> (0 < w \<longleftrightarrow> 1000000 \<le> ?k + hours24 - t_wait env))"
    if z: "\<forall>t. py_timestamp env t = t - off"
      and f: "\<forall>l \<in> set (generation_logs st). created_at l \<le> t_wait env"
  proof (cases "length ?W < DAILY_FREE_LIMIT \<or> ?k + hours24 = off")
    case True
    then have "w = 3600"
      using w z by (auto simp: next_available_ts_kth retry_after_seconds_def)
    then show ?thesis using True by simp
  next
    case False
    then have full: "DAILY_FREE_LIMIT \<le> length ?W" and ne: "?k + hours24 \<noteq> off" by simp_all
    have d: "?ts - py_timestamp env (t_wait env) = ?k + hours24 - t_wait env"
      using z by simp
    have tsnz: "?ts \<noteq> 0" using z ne by simp
    have w': "w = max 0 (?k + hours24 - t_wait env) div 1000000"
      using w full tsnz d by (simp add: next_available_ts_kth retry_after_seconds_def)
    have "?k \<le> t_wait env" using kth_recent_rank(4) [OF full, of "t_wait env"] f by simp
    then have "?k + hours24 - t_wait env \<le> 24 * 3600 * 1000000" by (simp add: hours24_def)
    then have le: "w \<le> 24 * 3600" unfolding w' by (rule whole_seconds_at_most_day)
    have pos: "0 < w \<longleftrightarrow> 1000000 \<le> ?k + hours24 - t_wait env"
      unfolding w' by (rule whole_seconds_positive)
    show ?thesis using False le w' pos by simp
  qed
  have C': "(\<forall>t. py_timestamp env t = t - off)
         \<and> (\<forall>l \<in> set (generation_logs st). created_at l \<le> t_wait env)
        \<longrightarrow> w \<le> 24 * 3600
          \<and> (if length ?W < DAILY_FREE_LIMIT \<or> ?k + hours24 = off then w = 3600
             else w = max 0 (?k + hours24 - t_wait env) div 1000000
                \<and> (0 < w \<longleftrightarrow> 1000000 \<le> ?k + hours24 - t_wait env))"
    using C by blast
  show ?thesis by (rule conjI [OF A conjI [OF B C']])
qed

theorem retry_after_whole_seconds_witness:
  "(0::int) \<le> 86370
   \<and> kth_recent noon
        (empty_state\<lparr>users := [registered_user], generation_logs := three_recent_logs\<rparr>) 1
       = noon - 30000000
   \<and> length (filter (\<lambda>l. kth_recent noon
              (empty_state\<lparr>users := [registered_user], generation_logs := three_recent_logs\<rparr>) 1
              < created_at l)
             (user_window_logs noon
               (empty_state\<lparr>users := [registered_user], generation_logs := three_recent_logs\<rparr>) 1))
     < DAILY_FREE_LIMIT
   \<and> (86370 :: int) = max 0 (kth_recent noon
        (empty_state\<lparr>users := [registered_user], generation_logs := three_recent_logs\<rparr>) 1
          + hours24 - noon) div 1000000
   \<and> (86370 :: int) \<le> 24 * 3600"
  using retry_after_whole_seconds [where
      st = "empty_state\<lparr>users := [registered_user], generation_logs := three_recent_logs\<rparr>"
      and auth = "Some 1" and u = registered_user and env = example_env
      and cookie = None and e = "''Daily free limit reached.''" and used = 3 and lim = 2
      and w = 86370 and m = "''Please wait or purchase a plan to continue.''"
      and st' = "empty_state\<lparr>users := [registered_user], generation_logs := three_recent_logs\<rparr>"
      and off = 0]
  by (simp add: registered_user_def three_recent_logs_def kth_recent_def model_defs)

text \<open>
  C4, as the claim states it, fails in three ways. The user of \<open>aging_quota_run\<close> asks
  again at \<open>noon\<close>, half a second before the older of the two events leaves the window,
  and is answered 429 with \<^verbatim>\<open>retry_after_seconds = 0\<close>, while \<open>(t\<^sub>k + 24h) - now\<close> is
  500000 microseconds. The same user, asking at the very instant that event is still
  counted while \<^verbatim>\<open>next_available_ts\<close> reads the clock a microsecond later, is answered
  3600. The user of \<open>recent_quota_run\<close>, in a process on New York time the day before the
  clocks go back, is answered 89950, more than 24 hours, while \<open>(t\<^sub>k + 24h) - now\<close> is
  86350 seconds.
\<close>

theorem retry_after_zero_fallback_or_over_a_day:
  "fst (handle (at_instant noon example_env) (StyleImage example_upload)
          (run aging_quota_run empty_state))
     = Error429 ''Daily free limit reached.'' 2 2 0
         ''Please wait or purchase a plan to continue.''
   \<and> kth_recent noon (run aging_quota_run empty_state) 1 + hours24 - noon = 500000
   \<and> fst (handle (example_env\<lparr>t_count := noon + 500000, t_next := noon + 500001,
                                t_wait := noon + 500002\<rparr>)
            (StyleImage example_upload) (run aging_quota_run empty_state))
     = Error429 ''Daily free limit reached.'' 2 2 3600
         ''Please wait or purchase a plan to continue.''
   \<and> fst (handle (at_instant noon (example_env\<lparr>py_timestamp := eastern_timestamp\<rparr>))
            (StyleImage example_upload) (run recent_quota_run empty_state))
     = Error429 ''Daily free limit reached.'' 2 2 89950
         ''Please wait or purchase a plan to continue.''
   \<and> kth_recent noon (run recent_quota_run empty_state) 1 + hours24 - noon = 86350000000
   \<and> (24 * 3600 :: int) < 89950"
  by (simp add: aging_quota_run_def recent_quota_run_def eastern_timestamp_def kth_recent_def
        model_defs)

subsection \<open>The handler around the enforcement block\<close>

lemma write_upload_tables [simp]:
  "users (write_upload env rq st) = users st"
  "guests (write_upload env rq st) = guests st"
  "email_tokens (write_upload env rq st) = email_tokens st"
  "generation_logs (write_upload env rq st) = generation_logs st"
  "upload_dir (write_upload env rq st) (safe_name env rq) = Some (file_contents rq)"
  by (simp_all add: write_upload_def)

lemma write_upload_reads [simp]:
  "get_user (write_upload env rq st) i = get_user st i"
  "get_guest (write_upload env rq st) g = get_guest st g"
  "get_current_user (write_upload env rq st) auth = get_current_user st auth"
  "user_window_logs now (write_upload env rq st) i = user_window_logs now st i"
  "kth_recent now (write_upload env rq st) i = kth_recent now st i"
  by (simp_all add: get_user_def get_guest_def get_current_user_def user_window_logs_def
        kth_recent_def window_logs_desc_def split: option.splits)

lemma style_image_valid:
  assumes "valid_upload rq"
  shows "style_image env rq st =
     (case enforce_credits env (get_current_user st (req_auth rq)) (req_guest_cookie rq)
             (write_upload env rq st) of
        (Reply r, st2) \<Rightarrow> (r, st2)
      | (Crash, st2) \<Rightarrow> (Error500, st2)
      | (Proceed who_kind who_id, st2) \<Rightarrow>
          (case generation env rq (safe_name env rq) (rstrip_slash (base_url rq)) st2 of
             None \<Rightarrow> (Error400 ''Unknown AI provider'', st2)
           | Some (p, st3) \<Rightarrow>
               (Payload p, log_after_generation (t_log env) who_kind who_id st3)))"
  using assms by (simp add: style_image_def valid_upload_def Let_def not_less)

lemma style_image_invalid:
  assumes "\<not> valid_upload rq"
  shows "\<not> is_denial (fst (style_image env rq st))"
  using assms by (auto simp: style_image_def valid_upload_def Let_def not_less)

text \<open>A 429 or a 402 of the handler is the reply of the enforcement block.\<close>

lemma style_image_denial:
  assumes "is_denial (fst (style_image env rq st))"
  shows "valid_upload rq"
    and "enforce_credits env (get_current_user st (req_auth rq)) (req_guest_cookie rq)
           (write_upload env rq st)
         = (Reply (fst (style_image env rq st)), snd (style_image env rq st))"
proof -
  show v: "valid_upload rq" using assms style_image_invalid by blast
  obtain d st2 where e: "enforce_credits env (get_current_user st (req_auth rq))
       (req_guest_cookie rq) (write_upload env rq st) = (d, st2)"
    by (cases "enforce_credits env (get_current_user st (req_auth rq))
       (req_guest_cookie rq) (write_upload env rq st)") auto
  show "enforce_credits env (get_current_user st (req_auth rq)) (req_guest_cookie rq)
           (write_upload env rq st)
         = (Reply (fst (style_image env rq st)), snd (style_image env rq st))"
  proof (cases d)
    case (Proceed k w)
    then have "\<not> is_denial (fst (style_image env rq st))"
      using e by (simp add: style_image_valid [OF v] split: option.splits prod.splits)
    then show ?thesis using assms by simp
  next
    case (Reply r)
    then show ?thesis using e by (simp add: style_image_valid [OF v])
  next
    case Crash
    then have "\<not> is_denial (fst (style_image env rq st))"
      using e by (simp add: style_image_valid [OF v])
    then show ?thesis using assms by simp
  qed
qed

lemma whole_seconds_bracket:
  fixes d :: int
  shows "d div 1000000 * 1000000 \<le> d" and "d < (d div 1000000 + 1) * 1000000"
proof -
  have e: "d div 1000000 * 1000000 + d mod 1000000 = d" by (rule div_mult_mod_eq)
  have r0: "0 \<le> d mod 1000000" by simp
  have r1: "d mod 1000000 < 1000000" by simp
  show "d div 1000000 * 1000000 \<le> d" using e r0 by linarith
  have "(d div 1000000 + 1) * 1000000 = d div 1000000 * 1000000 + 1000000"
    by (simp add: algebra_simps)
  then show "d < (d div 1000000 + 1) * 1000000" using e r1 by linarith
qed

text \<open>
  C9, as the code has it. A signed-in user is answered 429 by a request served at the
  instant \<open>now\<close>; \<^verbatim>\<open>GET /credits\<close> with the same cookie, served at the same instant by
  the same process on the state the refusal left, leaves that state as it is and reports
  the \<^verbatim>\<open>used_last_24h\<close> and \<^verbatim>\<open>daily_limit\<close> the refusal carried. Its
  \<^verbatim>\<open>next_available_ts\<close> is \<open>na\<close>, the \<^verbatim>\<open>.timestamp()\<close> of \<open>t\<^sub>k + 24h\<close>, and the
  refusal's \<^verbatim>\<open>retry_after_seconds\<close> \<open>w\<close> is the whole-second part of its distance from the
  \<^verbatim>\<open>.timestamp()\<close> of \<open>now\<close>: \<open>now + w \<le> na < now + w + 1\<close> in seconds on that scale when
  \<open>na\<close> is not before it, \<open>w = 0\<close> when it is, and \<open>w = 3600\<close> when \<open>na\<close> is
  \<^verbatim>\<open>0.0\<close>. In a process whose local time is a constant \<open>off\<close> ahead of UTC, \<open>na\<close> is
  \<open>t\<^sub>k + 24h - off\<close> and is not before the \<^verbatim>\<open>.timestamp()\<close> of \<open>now\<close>.
\<close>

theorem describe_after_denial:
  assumes "get_current_user st (req_auth rq) = Some u"
    and "handle (at_instant now env) (StyleImage rq) st = (Error429 e used lim w m, st')"
  shows "handle (at_instant now (env'\<lparr>py_timestamp := py_timestamp env\<rparr>))
             (Credits (req_auth rq) cookie) st'
           = (UserSummary (email u) (is_verified u) (free_credits u) lim used
                (Some (py_timestamp env (kth_recent now st' (uid u) + hours24))), st')
       \<and> (if py_timestamp env (kth_recent now st' (uid u) + hours24) = 0 then w = 3600
          else if py_timestamp env (kth_recent now st' (uid u) + hours24) < py_timestamp env now
          then w = 0
          else py_timestamp env now + w * 1000000
                 \<le> py_timestamp env (kth_recent now st' (uid u) + hours24)
             \<and> py_timestamp env (kth_recent now st' (uid u) + hours24)
                 < py_timestamp env now + (w + 1) * 1000000)
       \<and> ((\<forall>t. py_timestamp env t = t - off)
          \<longrightarrow> py_timestamp env (kth_recent now st' (uid u) + hours24)
                = kth_recent now st' (uid u) + hours24 - off
            \<and> py_timestamp env now
                \<le> py_timestamp env (kth_recent now st' (uid u) + hours24))"
proof -
  let ?env = "at_instant now env"
  let ?st1 = "write_upload ?env rq st"
  have si: "style_image ?env rq st = (Error429 e used lim w m, st')" using assms(2) by simp
  then have den: "is_denial (fst (style_image ?env rq st))" by simp
  have enf: "enforce_credits ?env (Some u) (req_guest_cookie rq) ?st1
               = (Reply (Error429 e used lim w m), st')"
    using style_image_denial(2) [OF den] si assms(1) by simp
  have g: "get_user st (uid u) = Some u" and nz: "uid u \<noteq> 0"
    using get_current_user_Some [OF assms(1)] by simp_all
  have g1: "get_user ?st1 (uid u) = Some u" using g by simp
  note d = daily_limit_denial [OF g1 nz enf]
  have st': "st' = ?st1" by (rule d(1))
  have cu: "get_current_user st' (req_auth rq) = Some u" using assms(1) st' by simp
  have gu: "get_user st' (uid u) = Some u" using g1 st' by simp
  have full: "DAILY_FREE_LIMIT \<le> length (user_window_logs now st' (uid u))"
    using d(4) st' by (simp add: at_instant_def)
  have used: "used = length (user_window_logs now st' (uid u))"
    using d(2) st' by (simp add: at_instant_def)
  let ?na = "py_timestamp env (kth_recent now st' (uid u) + hours24)"
  let ?n = "py_timestamp env now"
  have A: "handle (at_instant now (env'\<lparr>py_timestamp := py_timestamp env\<rparr>))
             (Credits (req_auth rq) cookie) st'
           = (UserSummary (email u) (is_verified u) (free_credits u) lim used (Some ?na), st')"
    using cu gu nz full used d(3)
    by (simp add: credits_endpoint_def Let_def at_instant_def count_last_24h_user
          next_available_ts_kth)
  have w: "w = retry_after_seconds (Some ?na) ?n"
    using d(5) full st' by (simp add: at_instant_def next_available_ts_kth)
  have B: "if ?na = 0 then w = 3600
          else if ?na < ?n then w = 0
          else ?n + w * 1000000 \<le> ?na \<and> ?na < ?n + (w + 1) * 1000000"
  proof (cases "?na = 0")
    case True
    then show ?thesis using w by (simp add: retry_after_seconds_def)
  next
    case nz_na: False
    show ?thesis
    proof (cases "?na < ?n")
      case True
      then have "max 0 (?na - ?n) = 0" by simp
      then show ?thesis using w nz_na True by (simp add: retry_after_seconds_def)
    next
      case False
      then have "max 0 (?na - ?n) = ?na - ?n" by simp
      then have w': "w = (?na - ?n) div 1000000"
        using w nz_na by (simp add: retry_after_seconds_def)
      have "?n + w * 1000000 \<le> ?na"
        using whole_seconds_bracket(1) [of "?na - ?n"] w' by simp
      moreover have "?na < ?n + (w + 1) * 1000000"
        using whole_seconds_bracket(2) [of "?na - ?n"] w' by simp
      ultimately show ?thesis using nz_na False by simp
    qed
  qed
  have C: "(\<forall>t. py_timestamp env t = t - off)
          \<longrightarrow> ?na = kth_recent now st' (uid u) + hours24 - off \<and> ?n \<le> ?na"
  proof
    assume z: "\<forall>t. py_timestamp env t = t - off"
    have "now - hours24 \<le> kth_recent now st' (uid u)"
      by (rule kth_recent_rank(3) [OF full])
    then show "?na = kth_recent now st' (uid u) + hours24 - off \<and> ?n \<le> ?na"
      using z by simp
  qed
  show ?thesis by (rule conjI [OF A conjI [OF B C]])
qed

theorem describe_after_denial_witness:
  "fst (handle (at_instant (noon - 1000000) example_env) (Credits (Some 1) None)
          (snd (handle (at_instant (noon - 1000000) example_env) (StyleImage example_upload)
                  (run aging_quota_run empty_state))))
     = UserSummary ''a@x.io'' False 0 2 2 (Some (noon + 500000))
   \<and> noon - 1000000 + 1 * 1000000 \<le> noon + 500000
   \<and> noon + 500000 < noon - 1000000 + (1 + 1) * 1000000"
  using describe_after_denial [where st = "run aging_quota_run empty_state"
      and rq = example_upload
      and u = "registered_user\<lparr>user_created_at := noon - hours24\<rparr>"
      and now = "noon - 1000000" and env = example_env and env' = example_env and cookie = None
      and e = "''Daily free limit reached.''" and used = 2 and lim = 2 and w = 1
      and m = "''Please wait or purchase a plan to continue.''"
      and st' = "snd (handle (at_instant (noon - 1000000) example_env)
                   (StyleImage example_upload) (run aging_quota_run empty_state))"
      and off = 0]
  by (simp add: aging_quota_run_def registered_user_def kth_recent_def model_defs)

text \<open>
  C9, as the claim states it, fails. The user of \<open>aging_quota_run\<close> asks one second before
  \<open>noon\<close> in a process on UTC: the refusal carries \<^verbatim>\<open>retry_after_seconds = 1\<close>, and
  \<^verbatim>\<open>GET /credits\<close> at the same instant reports \<^verbatim>\<open>next_available_ts\<close> half a second
  after \<open>noon\<close>, which is not \<open>now + retry_after\<close>. The user of \<open>recent_quota_run\<close> asks at
  \<open>noon\<close> in a process on New York time: the refusal carries 89950 and
  \<^verbatim>\<open>next_available_ts\<close> is 104350 seconds after \<open>noon\<close>.
\<close>

theorem describe_next_available_not_now_plus_retry:
  "fst (handle (at_instant (noon - 1000000) example_env) (StyleImage example_upload)
          (run aging_quota_run empty_state))
     = Error429 ''Daily free limit reached.'' 2 2 1
         ''Please wait or purchase a plan to continue.''
   \<and> fst (handle (at_instant (noon - 1000000) example_env) (Credits (Some 1) None)
          (snd (handle (at_instant (noon - 1000000) example_env) (StyleImage example_upload)
                  (run aging_quota_run empty_state))))
     = UserSummary ''a@x.io'' False 0 2 2 (Some (noon + 500000))
   \<and> (noon - 1000000) + 1 * 1000000 \<noteq> noon + 500000
   \<and> fst (handle (at_instant noon (example_env\<lparr>py_timestamp := eastern_timestamp\<rparr>))
          (StyleImage example_upload) (run recent_quota_run empty_state))
     = Error429 ''Daily free limit reached.'' 2 2 89950
         ''Please wait or purchase a plan to continue.''
   \<and> fst (handle (at_instant noon (example_env\<lparr>py_timestamp := eastern_timestamp\<rparr>))
          (Credits (Some 1) None)
          (snd (handle (at_instant noon (example_env\<lparr>py_timestamp := eastern_timestamp\<rparr>))
                  (StyleImage example_upload) (run recent_quota_run empty_state))))
     = UserSummary ''a@x.io'' False 0 2 2 (Some (noon + 104350000000))
   \<and> noon + 89950 * 1000000 \<noteq> noon + 104350000000"
  by (simp add: aging_quota_run_def recent_quota_run_def model_defs)

subsection \<open>What the handlers leave alone\<close>

lemma commit_guest_frame [simp]:
  "users (commit_guest g st) = users st"
  "email_tokens (commit_guest g st) = email_tokens st"
  "generation_logs (commit_guest g st) = generation_logs st"
  "upload_dir (commit_guest g st) = upload_dir st"
  by (simp_all add: commit_guest_def)

lemma commit_user_frame [simp]:
  "guests (commit_user u st) = guests st"
  "email_tokens (commit_user u st) = email_tokens st"
  "generation_logs (commit_user u st) = generation_logs st"
  "upload_dir (commit_user u st) = upload_dir st"
  by (simp_all add: commit_user_def)

text \<open>
  \<^verbatim>\<open>get_or_create_guest\<close>, by what it returns and what it leaves: \<open>k\<close> is the identifier
  it settles on.
\<close>

lemma get_or_create_guest_conj:
  assumes "get_or_create_guest now nu cookie st = (g, st1)"
  shows "gid g = guest_cookie_id nu cookie
       \<and> get_guest st1 (guest_cookie_id nu cookie) = Some g
       \<and> credits g = (case guest_balance st (guest_cookie_id nu cookie) of
                         None \<Rightarrow> 2 | Some c \<Rightarrow> c)
       \<and> last_seen g = now \<and> users st1 = users st \<and> email_tokens st1 = email_tokens st
       \<and> generation_logs st1 = generation_logs st \<and> upload_dir st1 = upload_dir st
       \<and> (\<forall>g'. g' \<noteq> guest_cookie_id nu cookie \<longrightarrow> get_guest st1 g' = get_guest st g')"
proof (cases "get_guest st (guest_cookie_id nu cookie)")
  case None
  let ?k = "guest_cookie_id nu cookie"
  from None have r: "g = \<lparr>gid = ?k, credits = 2, guest_created_at = now, last_seen = now\<rparr>"
    "st1 = st\<lparr>guests := guests st @ [g]\<rparr>"
    using assms by (auto simp: get_or_create_guest_def Let_def)
  have a: "get_guest st1 ?k = Some g"
    using None r by (simp add: get_guest_def find_snoc)
  have b: "\<forall>g'. g' \<noteq> ?k \<longrightarrow> get_guest st1 g' = get_guest st g'"
    using r by (auto simp: get_guest_def find_snoc split: option.splits)
  show ?thesis
    using None r(1) a b by (simp add: r(2) guest_balance_def)
next
  case (Some g0)
  let ?k = "guest_cookie_id nu cookie"
  from Some have r: "g = g0\<lparr>last_seen := now\<rparr>" "st1 = commit_guest g st"
    using assms by (auto simp: get_or_create_guest_def Let_def)
  have k: "gid g0 = ?k" using Some by (rule get_guest_gid)
  have "get_guest st (gid g) = Some g0" using Some k r(1) by simp
  then have "get_guest (commit_guest g st) (gid g) = Some g" by (rule get_guest_commit_same)
  then have a: "get_guest st1 ?k = Some g" using r k by simp
  have b: "\<forall>g'. g' \<noteq> ?k \<longrightarrow> get_guest st1 g' = get_guest st g'"
    using get_guest_commit_other [of _ g st] r k by simp
  show ?thesis
    using Some r(1) k a b by (simp add: r(2) guest_balance_def commit_guest_def)
qed

lemma get_or_create_guest_props:
  assumes "get_or_create_guest now nu cookie st = (g, st1)"
  shows "gid g = guest_cookie_id nu cookie"
    and "get_guest st1 (guest_cookie_id nu cookie) = Some g"
    and "credits g = (case guest_balance st (guest_cookie_id nu cookie) of
                        None \<Rightarrow> 2 | Some c \<Rightarrow> c)"
    and "last_seen g = now"
    and "users st1 = users st" and "email_tokens st1 = email_tokens st"
    and "generation_logs st1 = generation_logs st" and "upload_dir st1 = upload_dir st"
    and "g' \<noteq> guest_cookie_id nu cookie \<Longrightarrow> get_guest st1 g' = get_guest st g'"
  using get_or_create_guest_conj [OF assms] by simp_all

lemma get_or_create_guest_balance:
  assumes "get_or_create_guest now nu cookie st = (g, st1)"
  shows "guest_balance st1 g' =
           (if g' = guest_cookie_id nu cookie
            then Some (case guest_balance st g' of None \<Rightarrow> 2 | Some c \<Rightarrow> c)
            else guest_balance st g')"
  using get_or_create_guest_props(2,3) [OF assms] get_or_create_guest_props(9) [OF assms, of g']
  by (auto simp: guest_balance_def)

lemma enforce_guest:
  assumes "get_or_create_guest (t_seen env) (new_uuid env) cookie st = (g, st1)"
  shows "enforce_credits env None cookie st =
     (if credits g \<le> 0 then (Reply guest_exhausted_reply, st1)
      else (Proceed ''guest'' (gid g), commit_guest (g\<lparr>credits := credits g - 1\<rparr>) st1))"
  using assms get_or_create_guest_props(1,2) [OF assms]
  by (simp add: enforce_credits_def)

lemma enforce_logs:
  "generation_logs (snd (enforce_credits env usr cookie st)) = generation_logs st"
proof (cases usr)
  case None
  obtain g st1 where r: "get_or_create_guest (t_seen env) (new_uuid env) cookie st = (g, st1)"
    by (cases "get_or_create_guest (t_seen env) (new_uuid env) cookie st") auto
  show ?thesis
    using None enforce_guest [OF r] get_or_create_guest_props(7) [OF r] by simp
next
  case (Some u)
  then show ?thesis
    by (simp add: enforce_credits_def Let_def split: option.splits)
qed

text \<open>A refusal of the enforcement block changes no user row, no token, no usage event, no
  file and no guest balance.\<close>

lemma enforce_reply_frame_conj:
  assumes "enforce_credits env usr cookie st = (Reply r, st')"
  shows "users st' = users st \<and> email_tokens st' = email_tokens st
       \<and> generation_logs st' = generation_logs st \<and> upload_dir st' = upload_dir st
       \<and> guest_balance st' g' = guest_balance st g'"
proof (cases usr)
  case None
  obtain g st1 where r: "get_or_create_guest (t_seen env) (new_uuid env) cookie st = (g, st1)"
    by (cases "get_or_create_guest (t_seen env) (new_uuid env) cookie st") auto
  from assms None enforce_guest [OF r] have le: "credits g \<le> 0" and st': "st' = st1"
    by (auto split: if_splits)
  have c: "credits g = (case guest_balance st (guest_cookie_id (new_uuid env) cookie) of
                          None \<Rightarrow> 2 | Some c \<Rightarrow> c)"
    by (rule get_or_create_guest_props(3) [OF r])
  have ex: "guest_balance st (guest_cookie_id (new_uuid env) cookie) = Some (credits g)"
    using le c by (cases "guest_balance st (guest_cookie_id (new_uuid env) cookie)") auto
  have b: "guest_balance st1 g' = guest_balance st g'"
    using get_or_create_guest_balance [OF r, of g'] ex by auto
  show ?thesis
    using get_or_create_guest_props(5,6,7,8) [OF r] b st' by simp
next
  case (Some u)
  then have "st' = st"
    using assms by (auto simp: enforce_credits_def Let_def split: option.splits if_splits)
  then show ?thesis by simp
qed

lemma enforce_reply_frame:
  assumes "enforce_credits env usr cookie st = (Reply r, st')"
  shows "users st' = users st" and "email_tokens st' = email_tokens st"
    and "generation_logs st' = generation_logs st" and "upload_dir st' = upload_dir st"
    and "guest_balance st' g' = guest_balance st g'"
  using enforce_reply_frame_conj [OF assms] by simp_all

lemma guest_balance_write_upload [simp]:
  "guest_balance (write_upload env rq st) g = guest_balance st g"
  by (simp add: guest_balance_def)

text \<open>
  C10. When \<^verbatim>\<open>style_image\<close> answers 429 or 402, the upload had passed both checks, the
  enforcement block ran on the state that already held the file (\<open>write_upload\<close>) and
  refused there, and the state the handler leaves holds the file under \<open>safe_name\<close> with
  every user row, token, usage event and guest balance as before the request. (On the
  guest path the refusal still refreshes \<^verbatim>\<open>last_seen\<close> of the guest row.)
\<close>

theorem denied_request_keeps_upload:
  assumes "is_denial (fst (style_image env rq st))"
  shows "valid_upload rq
       \<and> enforce_credits env (get_current_user st (req_auth rq)) (req_guest_cookie rq)
             (write_upload env rq st)
           = (Reply (fst (style_image env rq st)), snd (style_image env rq st))
       \<and> upload_dir (snd (style_image env rq st)) (safe_name env rq) = Some (file_contents rq)
       \<and> users (snd (style_image env rq st)) = users st
       \<and> email_tokens (snd (style_image env rq st)) = email_tokens st
       \<and> generation_logs (snd (style_image env rq st)) = generation_logs st
       \<and> guest_balance (snd (style_image env rq st)) g = guest_balance st g"
proof -
  note d = style_image_denial [OF assms]
  note f = enforce_reply_frame [OF d(2)]
  have "upload_dir (snd (style_image env rq st)) (safe_name env rq) = Some (file_contents rq)"
    using f(4) by simp
  moreover have "guest_balance (snd (style_image env rq st)) g = guest_balance st g"
    using f(5) [of g] by simp
  ultimately show ?thesis using d f(1,2,3) by simp
qed

theorem denied_request_keeps_upload_witness:
  "fst (style_image example_env guest_upload spent_guest_state)
     = Error402 ''Free tries used. Register & verify to get +2, then 2/day.'' ''register''
   \<and> upload_dir (snd (style_image example_env guest_upload spent_guest_state))
         ''1762000000_my_room.png'' = Some ''PNG''
   \<and> users (snd (style_image example_env guest_upload spent_guest_state)) = []
   \<and> generation_logs (snd (style_image example_env guest_upload spent_guest_state)) = []
   \<and> guest_balance (snd (style_image example_env guest_upload spent_guest_state)) ''g0''
       = Some 0"
  using denied_request_keeps_upload [where env = example_env and rq = guest_upload
      and st = spent_guest_state and g = "''g0''"]
  by (simp add: guest_upload_def spent_guest_state_def guest_balance_def valid_upload_def
        model_defs)

subsection \<open>Generation and the usage log\<close>

lemma generation_None:
  "generation env rq n b st = None \<longleftrightarrow>
     \<not> (AI_PROVIDER env = ''mock'' \<or> AI_PROVIDER env = ''stability'')"
  by (simp add: generation_def Let_def split: sum.splits)

lemma generation_logs_kept:
  "generation env rq n b st = Some (p, st3) \<Longrightarrow> generation_logs st3 = generation_logs st"
  by (auto simp: generation_def Let_def split: if_splits sum.splits)

lemma ascii_user_not_guest: "''guest'' \<noteq> ''user''"
  by simp

lemma log_after_generation_user:
  "log_after_generation now ''user'' (str_int i) st =
     st\<lparr>generation_logs := generation_logs st @
          [\<lparr>user_id = Some i, guest_id = None, created_at = now\<rparr>]\<rparr>"
  by (simp add: log_after_generation_def int_of_str_str_int log_generation_db_def)

lemma log_after_generation_guest:
  "log_after_generation now ''guest'' g st =
     st\<lparr>generation_logs := generation_logs st @
          [\<lparr>user_id = None, guest_id = Some g, created_at = now\<rparr>]\<rparr>"
  by (simp add: log_after_generation_def log_generation_db_def)

text \<open>Who the enforcement block lets through, and as what.\<close>

lemma enforce_proceed_user:
  assumes "get_user st (uid u) = Some u"
    and "fst (enforce_credits env (Some u) cookie st) = Proceed k w"
  shows "k = ''user''" and "w = str_int (uid u)"
  using assms by (auto simp: enforce_credits_def Let_def split: if_splits)

lemma enforce_proceed_guest:
  assumes "fst (enforce_credits env None cookie st) = Proceed k w"
  shows "k = ''guest''" and "w = guest_cookie_id (new_uuid env) cookie"
proof -
  obtain g st1 where r: "get_or_create_guest (t_seen env) (new_uuid env) cookie st = (g, st1)"
    by (cases "get_or_create_guest (t_seen env) (new_uuid env) cookie st") auto
  from assms enforce_guest [OF r] get_or_create_guest_props(1) [OF r]
  show "k = ''guest''" and "w = guest_cookie_id (new_uuid env) cookie"
    by (auto split: if_splits)
qed

text \<open>
  C7, as the code has it. Let an upload pass both checks and the enforcement block let the
  request through, by whichever branch. If the configured provider is \<^verbatim>\<open>mock\<close> or
  \<^verbatim>\<open>stability\<close>, the handler appends exactly one usage event, stamped with its clock
  read, carrying the user id of the signed-in user and no guest id, or else the guest
  identifier and no user id; this holds whatever \<^verbatim>\<open>stability_img2img\<close> did (the
  statement does not constrain \<open>stability_outcome\<close>). With any other provider the handler
  appends nothing.
\<close>

theorem permitted_action_logged_once:
  assumes "valid_upload rq"
    and "fst (enforce_credits env (get_current_user st (req_auth rq)) (req_guest_cookie rq)
                (write_upload env rq st)) = Proceed k w"
  shows "generation_logs (snd (style_image env rq st)) =
           generation_logs st @
           (if AI_PROVIDER env = ''mock'' \<or> AI_PROVIDER env = ''stability''
            then [\<lparr>user_id = map_option uid (get_current_user st (req_auth rq)),
                    guest_id = (case get_current_user st (req_auth rq) of
                                  Some u \<Rightarrow> None
                                | None \<Rightarrow> Some (guest_cookie_id (new_uuid env)
                                                   (req_guest_cookie rq))),
                    created_at = t_log env\<rparr>]
            else [])"
proof -
  let ?usr = "get_current_user st (req_auth rq)"
  let ?st1 = "write_upload env rq st"
  let ?E = "enforce_credits env ?usr (req_guest_cookie rq) ?st1"
  obtain st2 where e: "?E = (Proceed k w, st2)"
    using assms(2) by (cases ?E) auto
  have l2: "generation_logs st2 = generation_logs st"
    using enforce_logs [of env ?usr "req_guest_cookie rq" ?st1] e by simp
  have who: "log_after_generation (t_log env) k w s =
               s\<lparr>generation_logs := generation_logs s @
                  [\<lparr>user_id = map_option uid ?usr,
                    guest_id = (case ?usr of Some u \<Rightarrow> None
                                | None \<Rightarrow> Some (guest_cookie_id (new_uuid env)
                                                   (req_guest_cookie rq))),
                    created_at = t_log env\<rparr>]\<rparr>" for s
  proof (cases ?usr)
    case None
    then show ?thesis
      using enforce_proceed_guest [of env "req_guest_cookie rq" ?st1 k w] assms(2)
      by (simp add: log_after_generation_guest)
  next
    case (Some u)
    have g: "get_user ?st1 (uid u) = Some u"
      using get_current_user_Some(1) [OF Some] by simp
    show ?thesis
      using enforce_proceed_user [OF g, of env "req_guest_cookie rq" k w] assms(2) Some
      by (simp add: log_after_generation_user)
  qed
  show ?thesis
  proof (cases "generation env rq (safe_name env rq) (rstrip_slash (base_url rq)) st2")
    case None
    then show ?thesis
      using e l2 generation_None [of env rq "safe_name env rq" "rstrip_slash (base_url rq)" st2]
      by (simp add: style_image_valid [OF assms(1)])
  next
    case (Some r)
    obtain p st3 where r: "r = (p, st3)" by (cases r) auto
    have l3: "generation_logs st3 = generation_logs st"
      using generation_logs_kept [of env rq _ _ st2 p st3] Some r l2 by simp
    have prov: "AI_PROVIDER env = ''mock'' \<or> AI_PROVIDER env = ''stability''"
      using generation_None [of env rq "safe_name env rq" "rstrip_slash (base_url rq)" st2] Some
      by auto
    show ?thesis
      using e Some r l3 prov who [of st3]
      by (simp add: style_image_valid [OF assms(1)])
  qed
qed

theorem permitted_action_logged_once_witness:
  "generation_logs (snd (style_image (example_env\<lparr>AI_PROVIDER := ''stability''\<rparr>) example_upload
       (empty_state\<lparr>users := [google_user]\<rparr>)))
     = [\<lparr>user_id = Some 1, guest_id = None, created_at = noon\<rparr>]
   \<and> stability_outcome (example_env\<lparr>AI_PROVIDER := ''stability''\<rparr>) = Inl ''timeout''"
  using permitted_action_logged_once [where env = "example_env\<lparr>AI_PROVIDER := ''stability''\<rparr>"
      and rq = example_upload and st = "empty_state\<lparr>users := [google_user]\<rparr>"
      and k = "''user''" and w = "''1''"]
  by (simp add: google_user_def valid_upload_def model_defs)

text \<open>
  C7, as the claim states it, fails when \<^verbatim>\<open>AI_PROVIDER\<close> is neither \<^verbatim>\<open>mock\<close> nor
  \<^verbatim>\<open>stability\<close>: a first-time guest is let through and debited (one credit left), the
  handler answers 400 \<^verbatim>\<open>Unknown AI provider\<close>, and no usage event is appended.
\<close>

theorem unknown_provider_debits_without_log:
  "fst (style_image (example_env\<lparr>AI_PROVIDER := ''dalle''\<rparr>)
          (example_upload\<lparr>req_auth := None\<rparr>) empty_state)
     = Error400 ''Unknown AI provider''
   \<and> map credits (guests (snd (style_image (example_env\<lparr>AI_PROVIDER := ''dalle''\<rparr>)
          (example_upload\<lparr>req_auth := None\<rparr>) empty_state))) = [1]
   \<and> generation_logs (snd (style_image (example_env\<lparr>AI_PROVIDER := ''dalle''\<rparr>)
          (example_upload\<lparr>req_auth := None\<rparr>) empty_state)) = []"
  by (simp add: model_defs)

subsection \<open>\<^verbatim>\<open>GET /credits\<close>\<close>

lemma guest_cookie_id_nonempty: "nu \<noteq> [] \<Longrightarrow> guest_cookie_id nu cookie \<noteq> []"
  by (simp add: guest_cookie_id_def split: option.splits)

lemma count_last_24h_guest:
  "k \<noteq> [] \<Longrightarrow> count_last_24h now st None (Some k) =
     length (filter (\<lambda>l. guest_id l = Some k \<and> now - hours24 \<le> created_at l)
               (generation_logs st))"
  by (simp add: count_last_24h_def truthy_int_def truthy_str_def Let_def conj_commute)

lemma credits_endpoint_user:
  assumes "get_current_user st auth = Some u"
  shows "credits_endpoint env auth cookie st =
      (UserSummary (email u) (is_verified u) (free_credits u) DAILY_FREE_LIMIT
         (length (user_window_logs (t_count env) st (uid u)))
         (if length (user_window_logs (t_next env) st (uid u)) < DAILY_FREE_LIMIT then None
          else Some (py_timestamp env (kth_recent (t_next env) st (uid u) + hours24))), st)"
proof -
  have g: "get_user st (uid u) = Some u" and nz: "uid u \<noteq> 0"
    using get_current_user_Some [OF assms] by simp_all
  show ?thesis
    using assms g nz
    by (simp add: credits_endpoint_def Let_def count_last_24h_user next_available_ts_kth)
qed

lemma credits_endpoint_guest:
  assumes "get_current_user st auth = None"
    and "get_or_create_guest (t_seen env) (new_uuid env) cookie st = (g, st1)"
  shows "credits_endpoint env auth cookie st =
      (GuestSummary False (credits g) 0 (count_last_24h (t_count env) st1 None (Some (gid g)))
         None, st1)"
  using assms by (simp add: credits_endpoint_def)

text \<open>
  C6, as the code has it. For a signed-in user \<^verbatim>\<open>GET /credits\<close> returns the state it
  was given and reports the row's \<^verbatim>\<open>email\<close>, \<^verbatim>\<open>is_verified\<close> and \<^verbatim>\<open>free_credits\<close>,
  \<open>DAILY_FREE_LIMIT\<close>, the number of the user's usage events in the window, and as
  \<^verbatim>\<open>next_available_ts\<close> the \<^verbatim>\<open>.timestamp()\<close> of the naive datetime \<open>t\<^sub>k + 24h\<close>
  (Python's conversion of that reading as local time of the process) whenever the window
  holds at least \<open>DAILY_FREE_LIMIT\<close> events, whether or not prepaid credits keep the user
  unblocked, and null otherwise. Without a signed-in user it answers for the guest \<open>k\<close>
  named by the cookie, or by a new identifier: it reports that guest's balance (2 for a
  guest without a row), \<^verbatim>\<open>daily_limit = 0\<close>, the guest's usage events in the window and
  a null \<^verbatim>\<open>next_available_ts\<close>; it leaves every user row, token, usage event and file and
  the balance of every existing guest as they were, but it creates the row of \<open>k\<close> when
  there was none and sets \<^verbatim>\<open>last_seen\<close> of that row to its clock read.
\<close>

theorem describe_effects:
  assumes "get_current_user st auth = Some u"
    and "get_current_user st' auth' = None" and "new_uuid env' \<noteq> []"
  shows "credits_endpoint env auth cookie st =
      (UserSummary (email u) (is_verified u) (free_credits u) DAILY_FREE_LIMIT
         (length (user_window_logs (t_count env) st (uid u)))
         (if length (user_window_logs (t_next env) st (uid u)) < DAILY_FREE_LIMIT then None
          else Some (py_timestamp env (kth_recent (t_next env) st (uid u) + hours24))), st)
    \<and> fst (credits_endpoint env' auth' cookie' st') =
        GuestSummary False
          (case guest_balance st' (guest_cookie_id (new_uuid env') cookie') of
             None \<Rightarrow> 2 | Some c \<Rightarrow> c)
          0
          (length (filter (\<lambda>l. guest_id l = Some (guest_cookie_id (new_uuid env') cookie')
                              \<and> t_count env' - hours24 \<le> created_at l)
                     (generation_logs st')))
          None
    \<and> users (snd (credits_endpoint env' auth' cookie' st')) = users st'
    \<and> email_tokens (snd (credits_endpoint env' auth' cookie' st')) = email_tokens st'
    \<and> generation_logs (snd (credits_endpoint env' auth' cookie' st')) = generation_logs st'
    \<and> upload_dir (snd (credits_endpoint env' auth' cookie' st')) = upload_dir st'
    \<and> guest_balance (snd (credits_endpoint env' auth' cookie' st')) g =
        (if g = guest_cookie_id (new_uuid env') cookie'
         then Some (case guest_balance st' g of None \<Rightarrow> 2 | Some c \<Rightarrow> c)
         else guest_balance st' g)
    \<and> map_option last_seen
         (get_guest (snd (credits_endpoint env' auth' cookie' st'))
            (guest_cookie_id (new_uuid env') cookie')) = Some (t_seen env')"
proof -
  let ?k = "guest_cookie_id (new_uuid env') cookie'"
  obtain gg st1 where r: "get_or_create_guest (t_seen env') (new_uuid env') cookie' st' = (gg, st1)"
    by (cases "get_or_create_guest (t_seen env') (new_uuid env') cookie' st'") auto
  note p = get_or_create_guest_props [OF r]
  have k: "?k \<noteq> []" using assms(3) by (rule guest_cookie_id_nonempty)
  have c: "credits_endpoint env' auth' cookie' st' =
      (GuestSummary False (credits gg) 0 (count_last_24h (t_count env') st1 None (Some ?k))
         None, st1)"
    using credits_endpoint_guest [OF assms(2) r] p(1) by simp
  have n: "count_last_24h (t_count env') st1 None (Some ?k) =
     length (filter (\<lambda>l. guest_id l = Some ?k \<and> t_count env' - hours24 \<le> created_at l)
               (generation_logs st'))"
    using count_last_24h_guest [OF k, of "t_count env'" st1] p(7) by simp
  have b: "guest_balance st1 g =
        (if g = ?k then Some (case guest_balance st' g of None \<Rightarrow> 2 | Some c \<Rightarrow> c)
         else guest_balance st' g)"
    by (rule get_or_create_guest_balance [OF r])
  have ls: "map_option last_seen (get_guest st1 ?k) = Some (t_seen env')"
    using p(2,4) by simp
  show ?thesis
    using credits_endpoint_user [OF assms(1), of env cookie] c n b ls p(3,5,6,7,8)
    by simp
qed

theorem describe_effects_witness:
  "credits_endpoint (example_env\<lparr>py_timestamp := eastern_timestamp\<rparr>) (Some 1) None
      (empty_state\<lparr>users := [google_user], generation_logs := three_recent_logs\<rparr>)
     = (UserSummary ''b@x.io'' True 2 2 3 (Some (noon - 30000000 + hours24 + 18000000000)),
        empty_state\<lparr>users := [google_user], generation_logs := three_recent_logs\<rparr>)
   \<and> fst (credits_endpoint example_env None (Some ''g0'') spent_guest_state)
       = GuestSummary False 0 0 0 None
   \<and> guest_balance (snd (credits_endpoint example_env None (Some ''g0'') spent_guest_state)) ''g0''
       = Some 0
   \<and> map last_seen (guests (snd (credits_endpoint example_env None (Some ''g0'')
        spent_guest_state))) = [noon]"
  using describe_effects [where
      st = "empty_state\<lparr>users := [google_user], generation_logs := three_recent_logs\<rparr>"
      and auth = "Some 1" and u = google_user
      and env = "example_env\<lparr>py_timestamp := eastern_timestamp\<rparr>" and cookie = None
      and st' = spent_guest_state and auth' = None and env' = example_env
      and cookie' = "Some ''g0''" and g = "''g0''"]
  by (simp add: google_user_def three_recent_logs_def spent_guest_state_def guest_balance_def
        kth_recent_def model_defs)

text \<open>
  C6, as the claim states it, fails twice on one state, which holds a verified user with
  two credits and three recent usage events and no guest. Asked without any cookie,
  \<^verbatim>\<open>GET /credits\<close> inserts a guest row. Asked by the user, it reports a
  \<^verbatim>\<open>next_available_ts\<close> although the enforcement block lets that user through.
\<close>

theorem describe_creates_guest_and_reports_next_available:
  "guests (empty_state\<lparr>users := [google_user], generation_logs := three_recent_logs\<rparr>) = []
   \<and> guests (snd (credits_endpoint example_env None None
        (empty_state\<lparr>users := [google_user], generation_logs := three_recent_logs\<rparr>)))
       = [\<lparr>gid = ''0f8fad5bd9cb469fa16570867728950e'', credits = 2, guest_created_at = noon,
            last_seen = noon\<rparr>]
   \<and> fst (credits_endpoint example_env (Some 1) None
        (empty_state\<lparr>users := [google_user], generation_logs := three_recent_logs\<rparr>))
       = UserSummary ''b@x.io'' True 2 2 3 (Some (noon - 30000000 + hours24))
   \<and> fst (enforce_credits example_env (Some google_user) None
        (empty_state\<lparr>users := [google_user], generation_logs := three_recent_logs\<rparr>))
       = Proceed ''user'' ''1''"
  by (simp add: google_user_def three_recent_logs_def model_defs)

subsection \<open>Balances stay non-negative\<close>

lemma find_Some_mem: "find P xs = Some y \<Longrightarrow> y \<in> set xs"
  by (auto simp: find_Some_iff)

lemma list_all_commit:
  "list_all P xs \<Longrightarrow> P v \<Longrightarrow> list_all P (map (\<lambda>x. if f x = f v then v else x) xs)"
  by (induction xs) auto

lemma nonneg_get_user:
  "balances_nonneg st \<Longrightarrow> get_user st i = Some u \<Longrightarrow> 0 \<le> free_credits u"
  by (auto simp: balances_nonneg_def get_user_def list_all_iff dest: find_Some_mem)

lemma nonneg_user_by_email:
  "balances_nonneg st \<Longrightarrow> user_by_email st e = Some u \<Longrightarrow> 0 \<le> free_credits u"
  by (auto simp: balances_nonneg_def user_by_email_def list_all_iff dest: find_Some_mem)

lemma nonneg_get_current_user:
  "balances_nonneg st \<Longrightarrow> get_current_user st a = Some u \<Longrightarrow> 0 \<le> free_credits u"
  by (auto simp: get_current_user_def split: option.splits if_splits dest: nonneg_get_user)

lemma nonneg_get_guest:
  "balances_nonneg st \<Longrightarrow> get_guest st g = Some gg \<Longrightarrow> 0 \<le> credits gg"
  by (auto simp: balances_nonneg_def get_guest_def list_all_iff dest: find_Some_mem)

lemma nonneg_commit_user:
  "balances_nonneg st \<Longrightarrow> 0 \<le> free_credits u \<Longrightarrow> balances_nonneg (commit_user u st)"
  by (simp add: balances_nonneg_def commit_user_def list_all_commit)

lemma nonneg_commit_guest:
  "balances_nonneg st \<Longrightarrow> 0 \<le> credits g \<Longrightarrow> balances_nonneg (commit_guest g st)"
  by (simp add: balances_nonneg_def commit_guest_def list_all_commit)

lemma nonneg_add_user:
  "balances_nonneg st \<Longrightarrow> 0 \<le> free_credits u \<Longrightarrow>
     balances_nonneg (st\<lparr>users := users st @ [u]\<rparr>)"
  by (simp add: balances_nonneg_def)

lemma nonneg_other_fields [simp]:
  "balances_nonneg (st\<lparr>email_tokens := ts\<rparr>) = balances_nonneg st"
  "balances_nonneg (st\<lparr>generation_logs := ls\<rparr>) = balances_nonneg st"
  "balances_nonneg (st\<lparr>upload_dir := d\<rparr>) = balances_nonneg st"
  by (simp_all add: balances_nonneg_def)

lemma nonneg_token_helpers [simp]:
  "balances_nonneg (new_email_token now tok i p mins st) = balances_nonneg st"
  "balances_nonneg (generate_otp_for_user now code i mins st) = balances_nonneg st"
  "balances_nonneg (delete_token t st) = balances_nonneg st"
  "balances_nonneg (log_generation_db now a b st) = balances_nonneg st"
  "balances_nonneg (write_upload env rq st) = balances_nonneg st"
  by (simp_all add: new_email_token_def generate_otp_for_user_def delete_token_def
        log_generation_db_def write_upload_def Let_def)

lemma nonneg_mark_verified: "0 \<le> free_credits u \<Longrightarrow> 0 \<le> free_credits (mark_verified u)"
  by (simp add: mark_verified_def Let_def)

lemma nonneg_register:
  "balances_nonneg st \<Longrightarrow> balances_nonneg (snd (register env e p ok st))"
  by (simp add: register_def Let_def nonneg_add_user)

lemma nonneg_verify_email:
  "balances_nonneg st \<Longrightarrow> balances_nonneg (snd (verify_email env tk st))"
  by (auto simp: verify_email_def split: option.splits
        intro!: nonneg_commit_user nonneg_mark_verified dest: nonneg_get_user)

lemma nonneg_request_otp:
  "balances_nonneg st \<Longrightarrow> balances_nonneg (snd (request_otp env e st))"
  by (simp add: request_otp_def Let_def split: option.splits)

lemma nonneg_verify_otp:
  "balances_nonneg st \<Longrightarrow> balances_nonneg (snd (verify_otp env e c st))"
  by (auto simp: verify_otp_def Let_def split: option.splits
        intro!: nonneg_commit_user nonneg_mark_verified dest: nonneg_user_by_email)

lemma nonneg_login:
  "balances_nonneg st \<Longrightarrow> balances_nonneg (snd (login env e p ok st))"
  by (auto simp: login_def Let_def split: option.splits
        intro!: nonneg_commit_user dest: nonneg_user_by_email)

lemma nonneg_resend_verify:
  "balances_nonneg st \<Longrightarrow> balances_nonneg (snd (resend_verify env usr st))"
  by (simp add: resend_verify_def split: option.splits)

lemma nonneg_google_callback:
  "balances_nonneg st \<Longrightarrow> balances_nonneg (snd (google_callback env ui st))"
  by (auto simp: google_callback_def Let_def split: option.splits prod.splits
        intro!: nonneg_commit_user nonneg_add_user dest: nonneg_user_by_email)

lemma nonneg_google_idtoken_login:
  "balances_nonneg st \<Longrightarrow> balances_nonneg (snd (google_idtoken_login env em st))"
  by (auto simp: google_idtoken_login_def split: option.splits intro!: nonneg_add_user)

lemma nonneg_get_or_create_guest:
  assumes "balances_nonneg st"
  shows "balances_nonneg (snd (get_or_create_guest now nu cookie st))"
    and "0 \<le> credits (fst (get_or_create_guest now nu cookie st))"
  using assms
  by (auto simp: get_or_create_guest_def Let_def balances_nonneg_def commit_guest_def
        get_guest_def list_all_iff split: option.splits dest: find_Some_mem)

lemma nonneg_credits_endpoint:
  "balances_nonneg st \<Longrightarrow> balances_nonneg (snd (credits_endpoint env a c st))"
  using nonneg_get_or_create_guest(1) [of st "t_seen env" "new_uuid env" c]
  by (auto simp: credits_endpoint_def Let_def split: option.splits prod.splits)

lemma nonneg_enforce_credits:
  assumes "balances_nonneg st"
  shows "balances_nonneg (snd (enforce_credits env usr cookie st))"
proof (cases usr)
  case None
  obtain g st1 where r: "get_or_create_guest (t_seen env) (new_uuid env) cookie st = (g, st1)"
    by (cases "get_or_create_guest (t_seen env) (new_uuid env) cookie st") auto
  have n1: "balances_nonneg st1"
    using nonneg_get_or_create_guest(1) [OF assms, of "t_seen env" "new_uuid env" cookie] r
    by simp
  show ?thesis
    using None enforce_guest [OF r] n1 by (auto intro!: nonneg_commit_guest)
next
  case (Some u)
  show ?thesis
    using Some assms
    by (auto simp: enforce_credits_def Let_def split: option.splits
          intro!: nonneg_commit_user dest: nonneg_get_user)
qed

lemma nonneg_generation:
  "balances_nonneg st \<Longrightarrow> generation env rq n b st = Some (p, st3) \<Longrightarrow> balances_nonneg st3"
  by (auto simp: generation_def Let_def split: if_splits sum.splits)

lemma nonneg_log_after_generation [simp]:
  "balances_nonneg (log_after_generation now k w st) = balances_nonneg st"
  by (simp add: log_after_generation_def split: option.splits)

lemma nonneg_style_image:
  assumes "balances_nonneg st"
  shows "balances_nonneg (snd (style_image env rq st))"
proof (cases "valid_upload rq")
  case False
  then show ?thesis
    using assms by (auto simp: style_image_def valid_upload_def Let_def not_less)
next
  case True
  let ?E = "enforce_credits env (get_current_user st (req_auth rq)) (req_guest_cookie rq)
              (write_upload env rq st)"
  have n2: "balances_nonneg (snd ?E)"
    using assms by (intro nonneg_enforce_credits) simp
  obtain d st2 where e: "?E = (d, st2)" by (cases ?E) auto
  then have n2': "balances_nonneg st2" using n2 by simp
  show ?thesis
    using e n2' nonneg_generation [OF n2']
    by (auto simp: style_image_valid [OF True] split: enforcement.splits option.splits)
qed

lemma nonneg_handle:
  "balances_nonneg st \<Longrightarrow> balances_nonneg (snd (handle env rq st))"
  by (cases rq)
     (simp_all add: nonneg_register nonneg_verify_email nonneg_request_otp nonneg_verify_otp
        nonneg_login nonneg_resend_verify nonneg_google_callback nonneg_google_idtoken_login
        nonneg_credits_endpoint nonneg_style_image)

text \<open>
  C8. From a state in which no user holds negative \<^verbatim>\<open>free_credits\<close> and no guest negative
  \<^verbatim>\<open>credits\<close>, any sequence of requests to the handlers that write the tables (the auth
  routes, both Google sign-ins, \<^verbatim>\<open>/credits\<close> and \<^verbatim>\<open>/style-image\<close>), served one after
  the other with whatever they read from outside, ends in such a state. The two decrements
  sit behind \<^verbatim>\<open>u.free_credits > 0\<close> and behind the refusal at \<^verbatim>\<open>gg.credits <= 0\<close>.
\<close>

theorem balances_never_negative:
  "balances_nonneg st \<Longrightarrow> balances_nonneg (run reqs st)"
proof (induction reqs arbitrary: st)
  case Nil
  then show ?case by simp
next
  case (Cons r rest)
  obtain env rq where r: "r = (env, rq)" by (cases r) auto
  have "balances_nonneg (snd (handle env rq st))"
    using Cons.prems by (rule nonneg_handle)
  then show ?case using Cons.IH r by simp
qed

theorem balances_never_negative_witness:
  "balances_nonneg empty_state \<and> balances_nonneg (run quota_then_bonus_run empty_state)"
proof -
  have h: "balances_nonneg empty_state" by (simp add: balances_nonneg_def empty_state_def)
  show ?thesis using h balances_never_negative [OF h, of quota_then_bonus_run] by blast
qed

subsection \<open>The guest branch of the enforcement block\<close>

text \<open>
  One pass of a guest through the block: \<open>g\<close> is the identifier the request resolves to,
  \<open>c\<close> the balance the guest has on arrival, 2 for a guest without a row.
\<close>

lemma enforce_guest_outcome:
  assumes "guest_cookie_id (new_uuid env) cookie = g"
    and "(case guest_balance st g of None \<Rightarrow> 2 | Some b \<Rightarrow> b) = c"
  shows "fst (enforce_credits env None cookie st) =
           (if c \<le> 0 then Reply guest_exhausted_reply else Proceed ''guest'' g)"
    and "guest_balance (snd (enforce_credits env None cookie st)) g =
           Some (if c \<le> 0 then c else c - 1)"
proof -
  obtain gg st1 where r: "get_or_create_guest (t_seen env) (new_uuid env) cookie st = (gg, st1)"
    by (cases "get_or_create_guest (t_seen env) (new_uuid env) cookie st") auto
  note p = get_or_create_guest_props [OF r]
  have k: "gid gg = g" using p(1) assms(1) by simp
  have c: "credits gg = c" using p(3) assms by simp
  have g1: "get_guest st1 g = Some gg" using p(2) assms(1) by simp
  note e = enforce_guest [OF r]
  show "fst (enforce_credits env None cookie st) =
           (if c \<le> 0 then Reply guest_exhausted_reply else Proceed ''guest'' g)"
    using e k c by simp
  have "get_guest st1 (gid (gg\<lparr>credits := c - 1\<rparr>)) = Some gg" using g1 k by simp
  then have "get_guest (commit_guest (gg\<lparr>credits := c - 1\<rparr>) st1) (gid (gg\<lparr>credits := c - 1\<rparr>))
             = Some (gg\<lparr>credits := c - 1\<rparr>)"
    by (rule get_guest_commit_same)
  then have b: "guest_balance (commit_guest (gg\<lparr>credits := c - 1\<rparr>) st1) g = Some (c - 1)"
    using k by (simp add: guest_balance_def)
  show "guest_balance (snd (enforce_credits env None cookie st)) g =
           Some (if c \<le> 0 then c else c - 1)"
    using e c g1 b by (simp add: guest_balance_def)
qed

lemma guest_cookie_id_Some: "g \<noteq> [] \<Longrightarrow> guest_cookie_id nu (Some g) = g"
  by (simp add: guest_cookie_id_def)

text \<open>
  C2. A fresh guest \<open>g\<close> is one the first request resolves to (by its cookie, or as the
  new identifier when it carries none) and who has no row yet or a row holding the two
  credits it was created with, for instance by \<^verbatim>\<open>GET /credits\<close>. The first request and
  the second (cookie \<open>g\<close>) pass the enforcement block as \<^verbatim>\<open>guest\<close>, each taking one
  credit; the third is answered 402 with \<^verbatim>\<open>cta = register\<close> and the balance stays at
  zero. The guest branch never reads \<^verbatim>\<open>generation_logs\<close>: any request that resolves to a
  guest \<open>g0\<close> whose balance is zero or less is answered 402 whatever the usage log \<open>logs\<close>
  holds.
\<close>

theorem guest_two_then_denied:
  assumes "g \<noteq> []" and "guest_cookie_id (new_uuid e1) c1 = g"
    and "guest_balance st g = None \<or> guest_balance st g = Some 2"
    and "guest_cookie_id (new_uuid e0) c0 = g0"
    and "get_guest st0 g0 = Some gg0" and "credits gg0 \<le> 0"
  shows "(let r1 = enforce_credits e1 None c1 st;
              r2 = enforce_credits e2 None (Some g) (snd r1);
              r3 = enforce_credits e3 None (Some g) (snd r2)
          in fst r1 = Proceed ''guest'' g \<and> guest_balance (snd r1) g = Some 1
           \<and> fst r2 = Proceed ''guest'' g \<and> guest_balance (snd r2) g = Some 0
           \<and> fst r3 = Reply (Error402
                 ''Free tries used. Register & verify to get +2, then 2/day.'' ''register'')
           \<and> guest_balance (snd r3) g = Some 0)
       \<and> fst (enforce_credits e0 None c0 (st0\<lparr>generation_logs := logs\<rparr>))
           = Reply (Error402 ''Free tries used. Register & verify to get +2, then 2/day.''
                      ''register'')"
proof -
  let ?r1 = "enforce_credits e1 None c1 st"
  let ?r2 = "enforce_credits e2 None (Some g) (snd ?r1)"
  let ?r3 = "enforce_credits e3 None (Some g) (snd ?r2)"
  have two: "(case guest_balance st g of None \<Rightarrow> 2 | Some b \<Rightarrow> b) = 2"
    using assms(3) by auto
  have kg: "guest_cookie_id (new_uuid e) (Some g) = g" for e
    using assms(1) by (rule guest_cookie_id_Some)
  have f1: "fst ?r1 = Proceed ''guest'' g"
    using enforce_guest_outcome(1) [OF assms(2) two] by simp
  have b1: "guest_balance (snd ?r1) g = Some 1"
    using enforce_guest_outcome(2) [OF assms(2) two] by simp
  then have one: "(case guest_balance (snd ?r1) g of None \<Rightarrow> 2 | Some b \<Rightarrow> b) = 1" by simp
  have f2: "fst ?r2 = Proceed ''guest'' g"
    using enforce_guest_outcome(1) [OF kg one, of e2] by simp
  have b2: "guest_balance (snd ?r2) g = Some 0"
    using enforce_guest_outcome(2) [OF kg one, of e2] by simp
  then have zero: "(case guest_balance (snd ?r2) g of None \<Rightarrow> 2 | Some b \<Rightarrow> b) = 0" by simp
  have f3: "fst ?r3 = Reply guest_exhausted_reply"
    using enforce_guest_outcome(1) [OF kg zero, of e3] by simp
  have b3: "guest_balance (snd ?r3) g = Some 0"
    using enforce_guest_outcome(2) [OF kg zero, of e3] by simp
  have "guest_balance (st0\<lparr>generation_logs := logs\<rparr>) g0 = Some (credits gg0)"
    using assms(5) by (simp add: guest_balance_def get_guest_def)
  then have "(case guest_balance (st0\<lparr>generation_logs := logs\<rparr>) g0 of
                None \<Rightarrow> 2 | Some b \<Rightarrow> b) = credits gg0"
    by simp
  then have d: "fst (enforce_credits e0 None c0 (st0\<lparr>generation_logs := logs\<rparr>))
           = Reply guest_exhausted_reply"
    using enforce_guest_outcome(1) [OF assms(4), of "st0\<lparr>generation_logs := logs\<rparr>" "credits gg0"]
      assms(6) by simp
  show ?thesis using f1 b1 f2 b2 f3 b3 d by (simp add: Let_def guest_exhausted_reply_def)
qed

text \<open>
  The witness is a visitor whose row \<^verbatim>\<open>GET /credits\<close> created: the first debit finds the
  row with two credits and the cookie set.
\<close>

theorem guest_two_then_denied_witness:
  "guest_balance (snd (credits_endpoint example_env None None empty_state))
       ''0f8fad5bd9cb469fa16570867728950e'' = Some 2
   \<and> (let g = ''0f8fad5bd9cb469fa16570867728950e'';
        r1 = enforce_credits example_env None (Some g)
               (snd (credits_endpoint example_env None None empty_state));
        r2 = enforce_credits example_env None (Some g) (snd r1);
        r3 = enforce_credits example_env None (Some g) (snd r2)
    in fst r1 = Proceed ''guest'' g \<and> guest_balance (snd r1) g = Some 1
     \<and> fst r2 = Proceed ''guest'' g \<and> guest_balance (snd r2) g = Some 0
     \<and> fst r3 = Reply (Error402
           ''Free tries used. Register & verify to get +2, then 2/day.'' ''register'')
     \<and> guest_balance (snd r3) g = Some 0)
   \<and> fst (enforce_credits example_env None (Some ''g0'')
        (spent_guest_state\<lparr>generation_logs :=
            [\<lparr>user_id = None, guest_id = Some ''g0'', created_at = noon - 10\<rparr>]\<rparr>))
       = Reply (Error402 ''Free tries used. Register & verify to get +2, then 2/day.'' ''register'')"
  using guest_two_then_denied [where g = "''0f8fad5bd9cb469fa16570867728950e''"
      and st = "snd (credits_endpoint example_env None None empty_state)"
      and ?c1.0 = "Some ''0f8fad5bd9cb469fa16570867728950e''"
      and ?e1.0 = example_env and ?e2.0 = example_env and ?e3.0 = example_env
      and ?e0.0 = example_env and ?c0.0 = "Some ''g0''" and ?g0.0 = "''g0''"
      and ?st0.0 = spent_guest_state
      and ?gg0.0 = "\<lparr>gid = ''g0'', credits = 0, guest_created_at = noon - 100,
                        last_seen = noon - 50\<rparr>"
      and logs = "[\<lparr>user_id = None, guest_id = Some ''g0'', created_at = noon - 10\<rparr>]"]
  by (simp add: spent_guest_state_def guest_balance_def model_defs)

end
